theory Spec2Isabelle
  imports Main
begin

text \<open>
  The document translation service of \<open>app.py\<close>: a request handler that saves an
  uploaded file, extracts its text, has a chat model translate it and answers with a PDF
  or a text file. The functions of the program are embedded as HOL functions of the same
  names. What they call and do not define (the file system, the model client, werkzeug,
  PyMuPDF, textwrap, reportlab) is a parameter: the files and the conversation are the
  state that is passed along, the behaviour of the libraries is a record of functions.
  A function that can raise returns the exception as a value.
\<close>

section \<open>Strings\<close>

text \<open>
  A Python \<open>str\<close> is modelled as a HOL \<open>string\<close>, one \<open>char\<close> for each character
  of the Python string, so that \<open>length\<close> is Python's \<open>len\<close>. The service is taken to
  run on a POSIX host: the path separator is \<open>/\<close> and \<open>os.linesep\<close> is the line feed,
  so writing a file in text mode stores the characters as they are.
\<close>

abbreviation LF :: char where
  "LF \<equiv> CHR 0x0A"

abbreviation CR :: char where
  "CR \<equiv> CHR 0x0D"

definition endswith :: "string \<Rightarrow> string \<Rightarrow> bool" where
  \<comment> \<open>\<open>s.endswith(suffix)\<close>\<close>
  "endswith s suffix =
     (length suffix \<le> length s \<and> drop (length s - length suffix) s = suffix)"

fun split_nl :: "string \<Rightarrow> string list" where
  \<comment> \<open>\<open>text.split('\n')\<close>: always at least one piece, the separators removed\<close>
  "split_nl [] = [[]]"
| "split_nl (c # cs) =
     (if c = LF then [] # split_nl cs
      else (case split_nl cs of
              [] \<Rightarrow> [[c]]
            | p # ps \<Rightarrow> (c # p) # ps))"

fun join :: "string \<Rightarrow> string list \<Rightarrow> string" where
  \<comment> \<open>\<open>sep.join(parts)\<close>\<close>
  "join sep [] = []"
| "join sep [x] = x"
| "join sep (x # y # ys) = x @ sep @ join sep (y # ys)"

definition isspace :: "char \<Rightarrow> bool" where
  \<comment> \<open>the characters \<open>str.isspace\<close> accepts, among the first 256 code points\<close>
  "isspace c =
     (c \<in> {CHR 0x09, CHR 0x0A, CHR 0x0B, CHR 0x0C, CHR 0x0D,
            CHR 0x1C, CHR 0x1D, CHR 0x1E, CHR 0x1F, CHR 0x20, CHR 0x85, CHR 0xA0})"

definition strip :: "string \<Rightarrow> string" where
  \<comment> \<open>\<open>s.strip()\<close>: leading and trailing whitespace removed\<close>
  "strip s = rev (dropWhile isspace (rev (dropWhile isspace s)))"

fun universal_newlines :: "string \<Rightarrow> string" where
  \<comment> \<open>what \<open>open(path, "r")\<close> with the default \<open>newline=None\<close> hands to \<open>read()\<close>:
      \<open>\r\n\<close> and a lone \<open>\r\<close> both become \<open>\n\<close>\<close>
  "universal_newlines [] = []"
| "universal_newlines [c] = (if c = CR then [LF] else [c])"
| "universal_newlines (c # d # cs) =
     (if c = CR then
        (if d = LF then LF # universal_newlines cs
         else LF # universal_newlines (d # cs))
      else c # universal_newlines (d # cs))"

definition os_path_join :: "string \<Rightarrow> string \<Rightarrow> string" where
  \<comment> \<open>\<open>os.path.join(a, b)\<close> on POSIX\<close>
  "os_path_join a b =
     (if b \<noteq> [] \<and> hd b = CHR ''/'' then b
      else if a = [] \<or> last a = CHR ''/'' then a @ b
      else a @ ''/'' @ b)"

section \<open>Exceptions, files and the process state\<close>

text \<open>
  An exception is a value. The two \<open>raise\<close> statements of the program give
  \<open>ValueError\<close> and \<open>RuntimeError\<close>, and werkzeug raises a \<open>ValueError\<close> for a header
  value with a line break. Every other exception that the operating system or a library
  raises (a missing file, bytes that are not UTF-8, a document the PDF reader rejects,
  markup the layout library rejects, a failed model call) is an \<open>EnvError\<close> with its
  message. \<open>exn_msg e\<close> is \<open>str(e)\<close>, what an f-string prints.
\<close>

datatype exn = ValueError string | RuntimeError string | EnvError string

fun exn_msg :: "exn \<Rightarrow> string" where
  "exn_msg (ValueError m) = m"
| "exn_msg (RuntimeError m) = m"
| "exn_msg (EnvError m) = m"

text \<open>
  The failures of reading a file that the program meets: \<open>open\<close> finds no file, the
  bytes are not UTF-8, PyMuPDF finds no file, PyMuPDF cannot read the file as a PDF,
  \<open>send_file\<close> finds no file. The wording of their messages (how the path is quoted,
  whether it is made absolute) is the library's and is left open.
\<close>

datatype failure = NoFileToOpen | NotUtf8 | NoFileForFitz | NotAPdf | NoFileToSend

text \<open>
  What the layout library is given: a \<open>Paragraph\<close> (always in the one custom style of
  the document, font size 11) or a \<open>Spacer\<close> with its width and height.
\<close>

datatype flowable = Paragraph string | Spacer nat nat

text \<open>
  A PDF on disk is an uploaded document (the text of its pages, as PyMuPDF's
  \<open>get_text\<close> gives it), a document built from a story by \<open>SimpleDocTemplate.build\<close>,
  or the page drawn by \<open>_create_fallback_pdf\<close>: each \<open>drawString\<close> with the font, the
  size and the position in force.
\<close>

datatype pdf =
    Pages "string list"
  | Built "flowable list"
  | Drawn "(string \<times> nat \<times> nat \<times> nat \<times> string) list"

text \<open>
  A file is UTF-8 text (held decoded), a PDF, or bytes that are neither.
\<close>

datatype disk_file = TextFile string | PdfFile pdf | Garbage

text \<open>
  The state a request can change: the files on disk (the upload folder and the working
  directory, one name space of paths) and the one conversation that the process-level
  chat handle keeps for every request, as prompt and reply pairs.
\<close>

record world =
  files :: "string \<rightharpoonup> disk_file"
  history :: "(string \<times> string) list"

text \<open>
  Everything the program calls and does not define is a field of the environment:
  \<^item> \<open>vertex\<close>: what \<open>vertexai.init\<close> and \<open>start_chat\<close> did at process start, an
    exception or a model, which maps the conversation so far and a prompt to the text of
    its reply or to an exception;
  \<^item> \<open>secure_filename\<close>: werkzeug's sanitiser;
  \<^item> \<open>upload_fails\<close>: the exception of \<open>uploaded_file.save(path)\<close>, if it raises;
  \<^item> \<open>open_fails\<close>, \<open>encode_fails\<close>: the exception of \<open>open(filename, 'w')\<close> and of
    \<open>f.write(text)\<close>, if they raise;
  \<^item> \<open>get_text\<close>: the page texts PyMuPDF reads from a PDF this service generated;
  \<^item> \<open>textwrap_wrap\<close>: \<open>textwrap.wrap(text, width)\<close>;
  \<^item> \<open>paragraph_fails\<close>: the exception of \<open>Paragraph(text, style)\<close>, if it raises;
  \<^item> \<open>build_fails\<close>: the exception of \<open>doc.build(story)\<close>, if it raises;
  \<^item> \<open>canvas_fails\<close>: the exception of the canvas calls of \<open>_create_fallback_pdf\<close>,
    if one raises;
  \<^item> \<open>message\<close>: the message of the exception of a failed read, for the failure and
    the path.
  Logging is not modelled.
\<close>

record env =
  vertex :: "exn + ((string \<times> string) list \<Rightarrow> string \<Rightarrow> exn + string)"
  secure_filename :: "string \<Rightarrow> string"
  upload_fails :: "string \<Rightarrow> exn option"
  open_fails :: "string \<Rightarrow> exn option"
  encode_fails :: "string \<Rightarrow> exn option"
  get_text :: "pdf \<Rightarrow> string list"
  textwrap_wrap :: "string \<Rightarrow> nat \<Rightarrow> string list"
  paragraph_fails :: "string \<Rightarrow> exn option"
  build_fails :: "flowable list \<Rightarrow> exn option"
  canvas_fails :: "exn option"
  message :: "failure \<Rightarrow> string \<Rightarrow> string"

section \<open>Text extraction\<close>

definition read_text :: "env \<Rightarrow> world \<Rightarrow> string \<Rightarrow> exn + string" where
  \<comment> \<open>\<open>with open(file_path, "r", encoding="utf-8") as f: return f.read()\<close>\<close>
  "read_text e w path =
     (case files w path of
        None \<Rightarrow> Inl (EnvError (message e NoFileToOpen path))
      | Some (TextFile s) \<Rightarrow> Inr (universal_newlines s)
      | Some _ \<Rightarrow> Inl (EnvError (message e NotUtf8 path)))"

definition page_texts :: "env \<Rightarrow> pdf \<Rightarrow> string list" where
  \<comment> \<open>\<open>[page.get_text() for page in doc]\<close>\<close>
  "page_texts e d = (case d of Pages ps \<Rightarrow> ps | _ \<Rightarrow> get_text e d)"

definition fitz_open :: "env \<Rightarrow> world \<Rightarrow> string \<Rightarrow> exn + pdf" where
  \<comment> \<open>\<open>fitz.open(file_path)\<close>\<close>
  "fitz_open e w path =
     (case files w path of
        None \<Rightarrow> Inl (EnvError (message e NoFileForFitz path))
      | Some (PdfFile d) \<Rightarrow> Inr d
      | Some _ \<Rightarrow> Inl (EnvError (message e NotAPdf path)))"

definition extract_text :: "env \<Rightarrow> world \<Rightarrow> string \<Rightarrow> exn + string" where
  "extract_text e w file_path =
     (if endswith file_path ''.txt'' then read_text e w file_path
      else if endswith file_path ''.pdf'' then
        (case fitz_open e w file_path of
           Inl err \<Rightarrow> Inl err
         | Inr doc \<Rightarrow> Inr (join [LF] (page_texts e doc)))
      else Inl (ValueError ''Unsupported file type''))"

section \<open>Translation\<close>

definition initialize_vertex_ai ::
  "env \<Rightarrow> ((string \<times> string) list \<Rightarrow> string \<Rightarrow> exn + string) option" where
  \<comment> \<open>the \<open>try\<close> around \<open>vertexai.init\<close> and \<open>start_chat\<close>: an exception gives \<open>None\<close>\<close>
  "initialize_vertex_ai e = (case vertex e of Inl err \<Rightarrow> None | Inr session \<Rightarrow> Some session)"

definition chat :: "env \<Rightarrow> ((string \<times> string) list \<Rightarrow> string \<Rightarrow> exn + string) option" where
  \<comment> \<open>the process-level handle, set once when the module is loaded\<close>
  "chat e = initialize_vertex_ai e"

definition prompt :: "string \<Rightarrow> string \<Rightarrow> string" where
  \<comment> \<open>the f-string of \<open>translate_text\<close>, line by line\<close>
  "prompt txt target_language =
     [LF]
     @ ''    Detect the language of the following content and translate it into ''
     @ target_language @ ''.'' @ [LF]
     @ ''    Only return the translated version without commentary.'' @ [LF]
     @ ''        '' @ [LF]
     @ ''    '' @ replicate 3 (CHR 0x60) @ [LF]
     @ ''    '' @ txt @ [LF]
     @ ''    '' @ replicate 3 (CHR 0x60) @ [LF]
     @ ''    ''"

definition translate_text :: "env \<Rightarrow> world \<Rightarrow> string \<Rightarrow> string \<Rightarrow> (exn + string) \<times> world" where
  \<comment> \<open>a reply is appended to the conversation; a failed call leaves it as it was\<close>
  "translate_text e w txt target_language =
     (case chat e of
        None \<Rightarrow> (Inl (RuntimeError ''Gemini not initialized''), w)
      | Some session \<Rightarrow>
          (case session (history w) (prompt txt target_language) of
             Inl err \<Rightarrow> (Inl err, w)
           | Inr reply \<Rightarrow>
               (Inr reply,
                w\<lparr>history := history w @ [(prompt txt target_language, reply)]\<rparr>)))"

section \<open>Output files\<close>

definition write_text :: "env \<Rightarrow> world \<Rightarrow> string \<Rightarrow> string \<Rightarrow> exn option \<times> world" where
  \<comment> \<open>\<open>with open(filename, 'w', encoding='utf-8') as f: f.write(text)\<close>: opening
      truncates the file, so a failed \<open>write\<close> leaves it empty\<close>
  "write_text e w txt fname =
     (case open_fails e fname of
        Some err \<Rightarrow> (Some err, w)
      | None \<Rightarrow>
          (case encode_fails e txt of
             Some err \<Rightarrow> (Some err, w\<lparr>files := (files w)(fname \<mapsto> TextFile [])\<rparr>)
           | None \<Rightarrow> (None, w\<lparr>files := (files w)(fname \<mapsto> TextFile txt)\<rparr>)))"

definition create_text_file :: "env \<Rightarrow> world \<Rightarrow> string \<Rightarrow> string \<Rightarrow> bool \<times> world" where
  \<comment> \<open>\<open>try: ... return True / except Exception: return False\<close>\<close>
  "create_text_file e w txt fname =
     (case write_text e w txt fname of
        (None, w1) \<Rightarrow> (True, w1)
      | (Some err, w1) \<Rightarrow> (False, w1))"

record translated_pdf =
  filename :: string
  story :: "flowable list"

definition TranslatedPDF :: "string \<Rightarrow> translated_pdf" where
  \<comment> \<open>\<open>__init__\<close>: the template (letter, margins 72, 72, 72, 18) and the style are
      constants; the story starts empty\<close>
  "TranslatedPDF fname = \<lparr>filename = fname, story = []\<rparr>"

definition new_paragraph :: "env \<Rightarrow> string \<Rightarrow> exn + flowable" where
  \<comment> \<open>\<open>Paragraph(text, self.normal_style)\<close>\<close>
  "new_paragraph e txt =
     (case paragraph_fails e txt of Some err \<Rightarrow> Inl err | None \<Rightarrow> Inr (Paragraph txt))"

text \<open>
  The two loops of \<open>add_text_block\<close>. \<open>self.story.append\<close> changes the story in place, so
  an exception leaves the loops with what was appended before it: each loop returns the
  exception, if any, and the story as it is then.
\<close>

fun add_lines :: "env \<Rightarrow> string list \<Rightarrow> flowable list \<Rightarrow> exn option \<times> flowable list" where
  \<comment> \<open>\<open>for line in wrapped_lines: self.story.append(Paragraph(line, ...))\<close>\<close>
  "add_lines e [] st = (None, st)"
| "add_lines e (line # rest) st =
     (case new_paragraph e line of
        Inl err \<Rightarrow> (Some err, st)
      | Inr p \<Rightarrow> add_lines e rest (st @ [p]))"

fun add_paragraphs :: "env \<Rightarrow> string list \<Rightarrow> flowable list \<Rightarrow> exn option \<times> flowable list" where
  \<comment> \<open>\<open>for para in paragraphs: ...\<close>\<close>
  "add_paragraphs e [] st = (None, st)"
| "add_paragraphs e (para # rest) st =
     (if strip para \<noteq> [] then
        (if length para > 100 then
           (case add_lines e (textwrap_wrap e para 80) st of
              (Some err, st1) \<Rightarrow> (Some err, st1)
            | (None, st1) \<Rightarrow> add_paragraphs e rest st1)
         else
           (case new_paragraph e para of
              Inl err \<Rightarrow> (Some err, st)
            | Inr p \<Rightarrow> add_paragraphs e rest (st @ [p])))
      else add_paragraphs e rest (st @ [Spacer 1 6]))"

definition fallback_text :: string where
  "fallback_text =
     ''Translation completed. Text encoding issues prevented proper formatting.''"

definition add_text_block ::
  "env \<Rightarrow> translated_pdf \<Rightarrow> string \<Rightarrow> exn option \<times> translated_pdf" where
  \<comment> \<open>the handler of the \<open>try\<close> builds one more paragraph, outside any \<open>try\<close>\<close>
  "add_text_block e self txt =
     (case add_paragraphs e (split_nl txt) (story self) of
        (None, st) \<Rightarrow> (None, self\<lparr>story := st\<rparr>)
      | (Some err, st) \<Rightarrow>
          (case new_paragraph e fallback_text of
             Inl err2 \<Rightarrow> (Some err2, self\<lparr>story := st\<rparr>)
           | Inr p \<Rightarrow> (None, self\<lparr>story := st @ [p]\<rparr>)))"

definition doc_build :: "env \<Rightarrow> world \<Rightarrow> translated_pdf \<Rightarrow> exn option \<times> world" where
  \<comment> \<open>\<open>self.doc.build(self.story)\<close>: the file is written when the layout is done\<close>
  "doc_build e w self =
     (case build_fails e (story self) of
        Some err \<Rightarrow> (Some err, w)
      | None \<Rightarrow> (None, w\<lparr>files := (files w)(filename self \<mapsto> PdfFile (Built (story self)))\<rparr>))"

definition fallback_page :: "(string \<times> nat \<times> nat \<times> nat \<times> string) list" where
  \<comment> \<open>font, size, x, y and text of each \<open>drawString\<close>; the letter page is 792 high\<close>
  "fallback_page =
     [(''Helvetica-Bold'', 16, 72, 792 - 72, ''Translation Complete''),
      (''Helvetica'', 12, 72, 792 - 120, ''The translation was completed successfully.''),
      (''Helvetica'', 12, 72, 792 - 140,
         ''Due to character encoding limitations, the full text''),
      (''Helvetica'', 12, 72, 792 - 160, ''could not be displayed in this PDF format.''),
      (''Helvetica'', 12, 72, 792 - 180,
         ''Please try downloading as a text file instead.'')]"

definition canvas_draw :: "env \<Rightarrow> world \<Rightarrow> string \<Rightarrow> exn option \<times> world" where
  \<comment> \<open>the canvas calls of \<open>_create_fallback_pdf\<close>, \<open>c.save()\<close> last\<close>
  "canvas_draw e w fname =
     (case canvas_fails e of
        Some err \<Rightarrow> (Some err, w)
      | None \<Rightarrow> (None, w\<lparr>files := (files w)(fname \<mapsto> PdfFile (Drawn fallback_page))\<rparr>))"

definition create_fallback_pdf :: "env \<Rightarrow> world \<Rightarrow> translated_pdf \<Rightarrow> exn option \<times> world" where
  \<comment> \<open>\<open>_create_fallback_pdf\<close>: an exception of the canvas is logged and dropped\<close>
  "create_fallback_pdf e w self =
     (case canvas_draw e w (filename self) of
        (Some err, w1) \<Rightarrow> (None, w1)
      | (None, w1) \<Rightarrow> (None, w1))"

definition save :: "env \<Rightarrow> world \<Rightarrow> translated_pdf \<Rightarrow> exn option \<times> world" where
  "save e w self =
     (case doc_build e w self of
        (Some err, w1) \<Rightarrow> create_fallback_pdf e w1 self
      | (None, w1) \<Rightarrow> (None, w1))"

section \<open>The request handler\<close>

record upload =
  upload_filename :: string
  upload_content :: disk_file

record request =
  request_files :: "string \<rightharpoonup> upload"
  request_form :: "string \<rightharpoonup> string"

text \<open>
  A response is a body with its status, or a file sent as an attachment (status 200):
  what the file holds when \<open>send_file\<close> is called, and the download name.
\<close>

datatype response = Body string nat | Attachment disk_file string

definition upload_save :: "env \<Rightarrow> world \<Rightarrow> string \<Rightarrow> disk_file \<Rightarrow> exn option \<times> world" where
  \<comment> \<open>\<open>uploaded_file.save(file_path)\<close>\<close>
  "upload_save e w path c =
     (case upload_fails e path of
        Some err \<Rightarrow> (Some err, w)
      | None \<Rightarrow> (None, w\<lparr>files := (files w)(path \<mapsto> c)\<rparr>))"

definition has_newline :: "string \<Rightarrow> bool" where
  \<comment> \<open>a carriage return or a line feed: what werkzeug refuses in a header value\<close>
  "has_newline s = (CR \<in> set s \<or> LF \<in> set s)"

definition send_file :: "env \<Rightarrow> world \<Rightarrow> string \<Rightarrow> string \<Rightarrow> exn + response" where
  \<comment> \<open>\<open>send_file(path, as_attachment=True, download_name=name)\<close>; the application root
      is the working directory. The file is looked up first; then the download name goes
      into the \<open>Content-Disposition\<close> header, which raises when it has a line break\<close>
  "send_file e w path name =
     (case files w path of
        None \<Rightarrow> Inl (EnvError (message e NoFileToSend path))
      | Some f \<Rightarrow>
          if has_newline name then
            Inl (ValueError ''Header values must not contain newline characters.'')
          else Inr (Attachment f name))"

definition text_output :: "env \<Rightarrow> world \<Rightarrow> string \<Rightarrow> string \<Rightarrow> (exn + response) \<times> world" where
  \<comment> \<open>the branch \<open>output_format == 'txt'\<close>\<close>
  "text_output e w translated target_language =
     (let output_file = ''translated_output.txt'';
          (created, w1) = create_text_file e w translated output_file
      in if created then
           (send_file e w1 output_file (''translated_'' @ target_language @ ''.txt''), w1)
         else (Inr (Body ''Error creating text file'' 500), w1))"

definition pdf_attempt :: "env \<Rightarrow> world \<Rightarrow> string \<Rightarrow> string \<Rightarrow> (exn + response) \<times> world" where
  \<comment> \<open>the inner \<open>try\<close> block\<close>
  "pdf_attempt e w translated target_language =
     (let output_pdf = ''translated_output.pdf'';
          pdf = TranslatedPDF output_pdf
      in case add_text_block e pdf translated of
           (Some err, pdf1) \<Rightarrow> (Inl err, w)
         | (None, pdf1) \<Rightarrow>
             (case save e w pdf1 of
                (Some err, w1) \<Rightarrow> (Inl err, w1)
              | (None, w1) \<Rightarrow>
                  (send_file e w1 output_pdf (''translated_'' @ target_language @ ''.pdf''),
                   w1)))"

definition pdf_output :: "env \<Rightarrow> world \<Rightarrow> string \<Rightarrow> string \<Rightarrow> (exn + response) \<times> world" where
  \<comment> \<open>the inner \<open>try\<close> with its handler, the fall back to a text file\<close>
  "pdf_output e w translated target_language =
     (case pdf_attempt e w translated target_language of
        (Inr r, w1) \<Rightarrow> (Inr r, w1)
      | (Inl pdf_error, w1) \<Rightarrow>
          (let output_file = ''translated_output.txt'';
               (created, w2) = create_text_file e w1 translated output_file
           in if created then
                (send_file e w2 output_file (''translated_'' @ target_language @ ''.txt''),
                 w2)
              else
                (Inr (Body (''Error creating output file: '' @ exn_msg pdf_error) 500),
                 w2)))"

definition UPLOAD_FOLDER :: string where
  "UPLOAD_FOLDER = ''uploads''"

definition translate_try :: "env \<Rightarrow> world \<Rightarrow> request \<Rightarrow> (exn + response) \<times> world" where
  \<comment> \<open>the body of the outer \<open>try\<close>\<close>
  "translate_try e w req =
     (case request_files req ''file'' of
        None \<Rightarrow> (Inr (Body ''No file uploaded'' 400), w)
      | Some uploaded_file \<Rightarrow>
          if upload_filename uploaded_file = [] then (Inr (Body ''Empty filename'' 400), w)
          else
            (case request_form req ''language'' of
               None \<Rightarrow> (Inr (Body ''No target language specified'' 400), w)
             | Some target_language \<Rightarrow>
                 if target_language = [] then
                   (Inr (Body ''No target language specified'' 400), w)
                 else
                   (let output_format =
                          (case request_form req ''format'' of None \<Rightarrow> ''pdf'' | Some f \<Rightarrow> f);
                        fname = secure_filename e (upload_filename uploaded_file);
                        file_path = os_path_join UPLOAD_FOLDER fname
                    in case upload_save e w file_path (upload_content uploaded_file) of
                         (Some err, w1) \<Rightarrow> (Inl err, w1)
                       | (None, w1) \<Rightarrow>
                           (case extract_text e w1 file_path of
                              Inl err \<Rightarrow> (Inl err, w1)
                            | Inr original_text \<Rightarrow>
                                (case translate_text e w1 original_text target_language of
                                   (Inl err, w2) \<Rightarrow> (Inl err, w2)
                                 | (Inr translated, w2) \<Rightarrow>
                                     if output_format = ''txt'' then
                                       text_output e w2 translated target_language
                                     else pdf_output e w2 translated target_language)))))"

definition translate :: "env \<Rightarrow> world \<Rightarrow> request \<Rightarrow> (exn + response) \<times> world" where
  \<comment> \<open>\<open>except Exception as e: return f"Error: {e}", 500\<close>\<close>
  "translate e w req =
     (case translate_try e w req of
        (Inl err, w1) \<Rightarrow> (Inr (Body (''Error: '' @ exn_msg err) 500), w1)
      | (Inr r, w1) \<Rightarrow> (Inr r, w1))"

section \<open>Notions used to state the properties\<close>

definition before_output :: "env \<Rightarrow> world \<Rightarrow> request \<Rightarrow> (string \<times> string \<times> world) option" where
  \<comment> \<open>the handler up to the choice of the output: the target language, the translated
      text and the state then; \<open>None\<close> when it has answered or raised before\<close>
  "before_output e w req =
     (case request_files req ''file'' of
        None \<Rightarrow> None
      | Some uploaded_file \<Rightarrow>
          if upload_filename uploaded_file = [] then None
          else
            (case request_form req ''language'' of
               None \<Rightarrow> None
             | Some target_language \<Rightarrow>
                 if target_language = [] then None
                 else
                   (let file_path =
                          os_path_join UPLOAD_FOLDER
                            (secure_filename e (upload_filename uploaded_file))
                    in case upload_save e w file_path (upload_content uploaded_file) of
                         (Some err, w1) \<Rightarrow> None
                       | (None, w1) \<Rightarrow>
                           (case extract_text e w1 file_path of
                              Inl err \<Rightarrow> None
                            | Inr original_text \<Rightarrow>
                                (case translate_text e w1 original_text target_language of
                                   (Inl err, w2) \<Rightarrow> None
                                 | (Inr translated, w2) \<Rightarrow>
                                     Some (target_language, translated, w2))))))"

definition accepted :: "env \<Rightarrow> flowable \<Rightarrow> bool" where
  \<comment> \<open>the layout library takes the piece: no paragraph is made of a spacer, and the
      paragraph parser does not reject the text of a paragraph\<close>
  "accepted e fl =
     (case fl of Paragraph t \<Rightarrow> paragraph_fails e t = None | Spacer a b \<Rightarrow> True)"

definition paragraph_pieces :: "env \<Rightarrow> string \<Rightarrow> flowable list" where
  \<comment> \<open>what one line of the text becomes: a spacer when it is blank, its wrapped lines
      when it is long, itself otherwise\<close>
  "paragraph_pieces e para =
     (if strip para = [] then [Spacer 1 6]
      else if length para > 100 then map Paragraph (textwrap_wrap e para 80)
      else [Paragraph para])"

definition layout :: "env \<Rightarrow> string \<Rightarrow> flowable list" where
  \<comment> \<open>the text as paragraphs split on newlines, long lines wrapped\<close>
  "layout e txt = concat (map (paragraph_pieces e) (split_nl txt))"

section \<open>Sample environments and requests\<close>

definition sample_env :: env where
  \<comment> \<open>nothing fails; the model answers every prompt with the same two lines\<close>
  "sample_env =
     \<lparr>vertex = Inr (\<lambda>h p. Inr (''Hola'' @ [LF] @ ''mundo'')),
      secure_filename = (\<lambda>n. n),
      upload_fails = (\<lambda>p. None),
      open_fails = (\<lambda>p. None),
      encode_fails = (\<lambda>t. None),
      get_text = (\<lambda>d. []),
      textwrap_wrap = (\<lambda>t n. [take n t, drop n t]),
      paragraph_fails = (\<lambda>t. None),
      build_fails = (\<lambda>st. None),
      canvas_fails = None,
      message =
        (\<lambda>k p. if k = NoFileToSend then
                  ''[Errno 2] No such file or directory: '' @ [CHR 0x27] @ ''/app/'' @ p
                  @ [CHR 0x27]
                else if k = NoFileToOpen then
                  ''[Errno 2] No such file or directory: '' @ [CHR 0x27] @ p @ [CHR 0x27]
                else ''cannot read '' @ p)\<rparr>"

definition layout_error_env :: env where
  \<comment> \<open>the layout of every story fails; the placeholder page can be drawn\<close>
  "layout_error_env = sample_env\<lparr>build_fails := (\<lambda>st. Some (EnvError ''LayoutError''))\<rparr>"

definition read_only_env :: env where
  \<comment> \<open>the working directory is read-only: no output file can be written, the upload
      folder can\<close>
  "read_only_env =
     sample_env
       \<lparr>open_fails := (\<lambda>p. Some (EnvError ''[Errno 30] Read-only file system'')),
        build_fails := (\<lambda>st. Some (EnvError ''[Errno 30] Read-only file system'')),
        canvas_fails := Some (EnvError ''[Errno 30] Read-only file system'')\<rparr>"

definition pdf_error_env :: env where
  \<comment> \<open>neither the document nor the placeholder page can be made; text files can\<close>
  "pdf_error_env =
     sample_env
       \<lparr>build_fails := (\<lambda>st. Some (EnvError ''LayoutError'')),
        canvas_fails := Some (EnvError ''cannot save canvas'')\<rparr>"

definition no_client_env :: env where
  \<comment> \<open>the client could not be initialised at process start\<close>
  "no_client_env = sample_env\<lparr>vertex := Inl (EnvError ''DefaultCredentialsError'')\<rparr>"

definition markup_env :: env where
  \<comment> \<open>the paragraph parser rejects a text with an angle bracket\<close>
  "markup_env =
     sample_env
       \<lparr>paragraph_fails :=
          (\<lambda>t. if CHR ''<'' \<in> set t then Some (EnvError ''paraparser: syntax error'')
                else None)\<rparr>"

definition empty_world :: world where
  "empty_world = \<lparr>files = Map.empty, history = []\<rparr>"

definition stale_world :: world where
  \<comment> \<open>an earlier request has left its PDF in the working directory\<close>
  "stale_world =
     \<lparr>files = [''translated_output.pdf'' \<mapsto> PdfFile (Built [Paragraph ''Guten Tag''])],
      history = []\<rparr>"

definition translated_world :: world where
  \<comment> \<open>the state once the sample upload below has been saved on an empty disk and
      translated by the sample model\<close>
  "translated_world =
     \<lparr>files = [''uploads/hello.txt'' \<mapsto> TextFile ''Hello world''],
      history = [(prompt ''Hello world'' ''Spanish'', ''Hola'' @ [LF] @ ''mundo'')]\<rparr>"

definition newline_world :: world where
  \<comment> \<open>the same for a request with the target language on two lines\<close>
  "newline_world =
     \<lparr>files = [''uploads/hello.txt'' \<mapsto> TextFile ''Hello world''],
      history = [(prompt ''Hello world'' (''Old'' @ [LF] @ ''English''),
                  ''Hola'' @ [LF] @ ''mundo'')]\<rparr>"

definition sample_upload :: upload where
  "sample_upload = \<lparr>upload_filename = ''hello.txt'', upload_content = TextFile ''Hello world''\<rparr>"

definition txt_request :: request where
  "txt_request =
     \<lparr>request_files = [''file'' \<mapsto> sample_upload],
      request_form = [''language'' \<mapsto> ''Spanish'', ''format'' \<mapsto> ''txt'']\<rparr>"

definition pdf_request :: request where
  \<comment> \<open>no \<open>format\<close> field\<close>
  "pdf_request =
     \<lparr>request_files = [''file'' \<mapsto> sample_upload],
      request_form = [''language'' \<mapsto> ''Spanish'']\<rparr>"

definition docx_request :: request where
  \<comment> \<open>a format that is neither \<open>pdf\<close> nor \<open>txt\<close>\<close>
  "docx_request =
     \<lparr>request_files = [''file'' \<mapsto> sample_upload],
      request_form = [''language'' \<mapsto> ''Spanish'', ''format'' \<mapsto> ''docx'']\<rparr>"

definition newline_language :: string where
  \<comment> \<open>a target language typed on two lines\<close>
  "newline_language = ''Old'' @ [LF] @ ''English''"

definition txt_newline_request :: request where
  "txt_newline_request =
     \<lparr>request_files = [''file'' \<mapsto> sample_upload],
      request_form = [''language'' \<mapsto> newline_language, ''format'' \<mapsto> ''txt'']\<rparr>"

definition pdf_newline_request :: request where
  "pdf_newline_request =
     \<lparr>request_files = [''file'' \<mapsto> sample_upload],
      request_form = [''language'' \<mapsto> newline_language]\<rparr>"

definition no_language_request :: request where
  "no_language_request =
     \<lparr>request_files = [''file'' \<mapsto> sample_upload],
      request_form = [''format'' \<mapsto> ''txt'']\<rparr>"

section \<open>Extraction\<close>

lemma universal_newlines_id: "CR \<notin> set s \<Longrightarrow> universal_newlines s = s"
  by (induction s rule: universal_newlines.induct) auto

lemma txt_not_pdf: "endswith p ''.txt'' \<Longrightarrow> \<not> endswith p ''.pdf''"
  by (auto simp: endswith_def)

lemma read_text_not_ValueError: "read_text e w path \<noteq> Inl (ValueError m)"
  by (auto simp: read_text_def split: option.splits disk_file.splits)

lemma fitz_open_not_ValueError: "fitz_open e w path \<noteq> Inl (ValueError m)"
  by (auto simp: fitz_open_def split: option.splits disk_file.splits)

text \<open>
  C3. \<open>extract_text\<close> raises the unsupported-file-type error exactly when the path ends
  neither in \<open>.txt\<close> nor in \<open>.pdf\<close> (the comparison is case-sensitive). For a path
  that ends in \<open>.txt\<close> and holds a text file it returns the whole text, as text mode
  reads it; for a path that ends in \<open>.pdf\<close> and holds a PDF it returns the text of all
  its pages, joined by line feeds.
\<close>

theorem extract_text_by_suffix:
  "(extract_text e w path = Inl (ValueError ''Unsupported file type''))
     = (\<not> endswith path ''.txt'' \<and> \<not> endswith path ''.pdf'')
   \<and> (endswith path ''.txt'' \<longrightarrow> files w path = Some (TextFile s) \<longrightarrow>
        extract_text e w path = Inr (universal_newlines s))
   \<and> (endswith path ''.pdf'' \<longrightarrow> files w path = Some (PdfFile d) \<longrightarrow>
        extract_text e w path = Inr (join [LF] (page_texts e d)))"
proof (intro conjI impI)
  show "(extract_text e w path = Inl (ValueError ''Unsupported file type''))
     = (\<not> endswith path ''.txt'' \<and> \<not> endswith path ''.pdf'')"
    using read_text_not_ValueError [of e w path] fitz_open_not_ValueError [of e w path]
    by (auto simp: extract_text_def split: sum.splits)
next
  assume "endswith path ''.txt''" "files w path = Some (TextFile s)"
  then show "extract_text e w path = Inr (universal_newlines s)"
    by (simp add: extract_text_def read_text_def)
next
  assume "endswith path ''.pdf''" "files w path = Some (PdfFile d)"
  then show "extract_text e w path = Inr (join [LF] (page_texts e d))"
    using txt_not_pdf [of path] by (auto simp: extract_text_def fitz_open_def)
qed

theorem extract_text_by_suffix_witness:
  "extract_text sample_env
      (empty_world\<lparr>files := [''uploads/a.txt'' \<mapsto> TextFile (''one'' @ [CR, LF] @ ''two'')]\<rparr>)
      ''uploads/a.txt'' = Inr (''one'' @ [LF] @ ''two'')
   \<and> extract_text sample_env
        (empty_world\<lparr>files := [''uploads/b.pdf'' \<mapsto> PdfFile (Pages [''p1'', ''p2''])]\<rparr>)
        ''uploads/b.pdf'' = Inr (''p1'' @ [LF] @ ''p2'')
   \<and> extract_text sample_env empty_world ''uploads/c.TXT''
        = Inl (ValueError ''Unsupported file type'')"
proof -
  let ?wa = "empty_world\<lparr>files := [''uploads/a.txt'' \<mapsto> TextFile (''one'' @ [CR, LF] @ ''two'')]\<rparr>"
  let ?wb = "empty_world\<lparr>files := [''uploads/b.pdf'' \<mapsto> PdfFile (Pages [''p1'', ''p2''])]\<rparr>"
  have a: "endswith ''uploads/a.txt'' ''.txt''"
    and a': "files ?wa ''uploads/a.txt'' = Some (TextFile (''one'' @ [CR, LF] @ ''two''))"
    by (simp_all add: endswith_def)
  have b: "endswith ''uploads/b.pdf'' ''.pdf''"
    and b': "files ?wb ''uploads/b.pdf'' = Some (PdfFile (Pages [''p1'', ''p2'']))"
    by (simp_all add: endswith_def)
  have c: "\<not> endswith ''uploads/c.TXT'' ''.txt'' \<and> \<not> endswith ''uploads/c.TXT'' ''.pdf''"
    by (simp add: endswith_def)
  from extract_text_by_suffix [of sample_env ?wa "''uploads/a.txt''"
      "''one'' @ [CR, LF] @ ''two''" "Pages []"] a a'
  have 1: "extract_text sample_env ?wa ''uploads/a.txt''
             = Inr (universal_newlines (''one'' @ [CR, LF] @ ''two''))"
    by blast
  from extract_text_by_suffix [of sample_env ?wb "''uploads/b.pdf''" "[]"
      "Pages [''p1'', ''p2'']"] b b'
  have 2: "extract_text sample_env ?wb ''uploads/b.pdf''
             = Inr (join [LF] (page_texts sample_env (Pages [''p1'', ''p2''])))"
    by blast
  from extract_text_by_suffix [of sample_env empty_world "''uploads/c.TXT''" "[]" "Pages []"] c
  have 3: "extract_text sample_env empty_world ''uploads/c.TXT''
             = Inl (ValueError ''Unsupported file type'')"
    by blast
  from 1 2 3 show ?thesis
    by (simp add: page_texts_def)
qed

text \<open>
  C4, as amended. For every string \<open>s\<close> without a carriage return, a \<open>.txt\<close> file that
  \<open>create_text_file\<close> has written with \<open>s\<close>, or that an upload with the content \<open>s\<close>
  was saved to, is extracted as \<open>s\<close>.
\<close>

theorem text_round_trip:
  assumes "CR \<notin> set s" and "endswith path ''.txt''"
  shows "(create_text_file e w s path = (True, w1) \<longrightarrow> extract_text e w1 path = Inr s)
       \<and> (upload_save e w path (TextFile s) = (None, w2) \<longrightarrow> extract_text e w2 path = Inr s)"
  using assms
  by (auto simp: create_text_file_def write_text_def upload_save_def extract_text_def
        read_text_def universal_newlines_id split: option.splits prod.splits)

theorem text_round_trip_witness:
  "CR \<notin> set (''one'' @ [LF] @ ''two'') \<and> endswith ''n.txt'' ''.txt''
   \<and> create_text_file sample_env empty_world (''one'' @ [LF] @ ''two'') ''n.txt''
       = (True, empty_world\<lparr>files := [''n.txt'' \<mapsto> TextFile (''one'' @ [LF] @ ''two'')]\<rparr>)
   \<and> extract_text sample_env
        (empty_world\<lparr>files := [''n.txt'' \<mapsto> TextFile (''one'' @ [LF] @ ''two'')]\<rparr>)
        ''n.txt'' = Inr (''one'' @ [LF] @ ''two'')"
proof -
  let ?w1 = "empty_world\<lparr>files := [''n.txt'' \<mapsto> TextFile (''one'' @ [LF] @ ''two'')]\<rparr>"
  have h1: "CR \<notin> set (''one'' @ [LF] @ ''two'')" by simp
  have h2: "endswith ''n.txt'' ''.txt''" by (simp add: endswith_def)
  have h3: "create_text_file sample_env empty_world (''one'' @ [LF] @ ''two'') ''n.txt''
              = (True, ?w1)"
    by (simp add: create_text_file_def write_text_def sample_env_def empty_world_def)
  from text_round_trip [OF h1 h2, of sample_env empty_world ?w1 empty_world] h3
  have "extract_text sample_env ?w1 ''n.txt'' = Inr (''one'' @ [LF] @ ''two'')"
    by blast
  with h1 h2 h3 show ?thesis by blast
qed

text \<open>
  The claim as stated fails for a string with a carriage return: written as it is, the
  three characters \<open>a\<close>, carriage return, \<open>b\<close> are read back as \<open>a\<close>, line feed, \<open>b\<close>.
\<close>

theorem text_round_trip_counterexample:
  "fst (create_text_file sample_env empty_world [CHR ''a'', CR, CHR ''b''] ''n.txt'')
   \<and> extract_text sample_env
        (snd (create_text_file sample_env empty_world [CHR ''a'', CR, CHR ''b''] ''n.txt''))
        ''n.txt'' = Inr [CHR ''a'', LF, CHR ''b'']
   \<and> [CHR ''a'', LF, CHR ''b''] \<noteq> [CHR ''a'', CR, CHR ''b'']"
  by (simp add: create_text_file_def write_text_def sample_env_def extract_text_def
        endswith_def read_text_def)

section \<open>The handler up to the output\<close>

lemmas run_defs =
  translate_def translate_try_def before_output_def Let_def upload_save_def os_path_join_def
  UPLOAD_FOLDER_def extract_text_def endswith_def read_text_def translate_text_def chat_def
  initialize_vertex_ai_def text_output_def pdf_output_def pdf_attempt_def
  create_text_file_def write_text_def send_file_def TranslatedPDF_def add_text_block_def
  new_paragraph_def save_def doc_build_def create_fallback_pdf_def canvas_draw_def
  strip_def isspace_def has_newline_def

lemmas sample_defs =
  sample_env_def layout_error_env_def read_only_env_def pdf_error_env_def no_client_env_def
  markup_env_def empty_world_def stale_world_def translated_world_def newline_world_def
  sample_upload_def txt_request_def pdf_request_def docx_request_def no_language_request_def
  newline_language_def txt_newline_request_def pdf_newline_request_def

text \<open>
  On an empty disk the sample upload is saved, extracted and translated in every sample
  environment in which the client is there.
\<close>

lemma sample_before_output:
  "before_output sample_env empty_world txt_request
     = Some (''Spanish'', ''Hola'' @ [LF] @ ''mundo'', translated_world)"
  "before_output sample_env empty_world pdf_request
     = Some (''Spanish'', ''Hola'' @ [LF] @ ''mundo'', translated_world)"
  "before_output sample_env empty_world docx_request
     = Some (''Spanish'', ''Hola'' @ [LF] @ ''mundo'', translated_world)"
  "before_output layout_error_env empty_world pdf_request
     = Some (''Spanish'', ''Hola'' @ [LF] @ ''mundo'', translated_world)"
  "before_output pdf_error_env empty_world pdf_request
     = Some (''Spanish'', ''Hola'' @ [LF] @ ''mundo'', translated_world)"
  "before_output read_only_env empty_world pdf_request
     = Some (''Spanish'', ''Hola'' @ [LF] @ ''mundo'', translated_world)"
  "before_output read_only_env empty_world txt_request
     = Some (''Spanish'', ''Hola'' @ [LF] @ ''mundo'', translated_world)"
  "before_output sample_env empty_world txt_newline_request
     = Some (newline_language, ''Hola'' @ [LF] @ ''mundo'', newline_world)"
  "before_output layout_error_env empty_world pdf_newline_request
     = Some (newline_language, ''Hola'' @ [LF] @ ''mundo'', newline_world)"
  by (simp_all add: run_defs sample_defs)

lemma translate_try_output:
  "before_output e w req = Some (lang, t, w2) \<Longrightarrow>
   translate_try e w req =
     (if request_form req ''format'' = Some ''txt'' then text_output e w2 t lang
      else pdf_output e w2 t lang)"
  by (auto simp: before_output_def translate_try_def Let_def
        split: option.splits if_splits prod.splits sum.splits)

lemma send_file_not_Body: "send_file e w path name \<noteq> Inr (Body b st)"
  by (simp add: send_file_def split: option.splits)

lemma send_file_sent:
  "files w path = Some f \<Longrightarrow> \<not> has_newline name \<Longrightarrow>
   send_file e w path name = Inr (Attachment f name)"
  by (simp add: send_file_def)

lemma send_file_newline: "has_newline name \<Longrightarrow> \<exists>err. send_file e w path name = Inl err"
  by (simp add: send_file_def split: option.splits)

lemma send_file_header:
  "files w path = Some f \<Longrightarrow> has_newline name \<Longrightarrow>
   send_file e w path name
     = Inl (ValueError ''Header values must not contain newline characters.'')"
  by (simp add: send_file_def)

lemma has_newline_name:
  "has_newline (''translated_'' @ lang @ ''.txt'') = has_newline lang"
  "has_newline (''translated_'' @ lang @ ''.pdf'') = has_newline lang"
  by (auto simp: has_newline_def)

lemma text_output_status: "fst (text_output e w t lang) = Inr (Body b st) \<Longrightarrow> st = 500"
  using send_file_not_Body
  by (auto simp: text_output_def Let_def split: prod.splits if_splits)

lemma save_returns: "fst (save e w self) = None"
  by (simp add: save_def doc_build_def create_fallback_pdf_def canvas_draw_def
        split: option.splits prod.splits)

lemma pdf_attempt_status: "fst (pdf_attempt e w t lang) = Inr (Body b st) \<Longrightarrow> False"
  using send_file_not_Body
  by (auto simp: pdf_attempt_def Let_def split: prod.splits option.splits)

lemma pdf_output_status: "fst (pdf_output e w t lang) = Inr (Body b st) \<Longrightarrow> st = 500"
  using send_file_not_Body pdf_attempt_status [of e w t lang b st]
  by (auto simp: pdf_output_def Let_def split: prod.splits if_splits sum.splits)

lemma create_text_file_True:
  "create_text_file e w t f = (True, w1) \<Longrightarrow> w1 = w\<lparr>files := (files w)(f \<mapsto> TextFile t)\<rparr>"
  by (auto simp: create_text_file_def write_text_def split: option.splits prod.splits)

lemma translate_status:
  assumes "request_files req ''file'' = Some up" and "upload_filename up \<noteq> []"
      and "request_form req ''language'' = Some lang" and "lang \<noteq> []"
      and "fst (translate e w req) = Inr (Body b st)"
  shows "st = 500"
proof (cases "before_output e w req")
  case None
  with assms show ?thesis
    by (auto simp: translate_def translate_try_def before_output_def Let_def
          split: option.splits prod.splits sum.splits if_splits)
next
  case (Some r)
  obtain l t w2 where r: "r = (l, t, w2)" by (cases r) auto
  have tt: "translate_try e w req =
     (if request_form req ''format'' = Some ''txt'' then text_output e w2 t l
      else pdf_output e w2 t l)"
    using translate_try_output Some r by simp
  show ?thesis
  proof (cases "request_form req ''format'' = Some ''txt''")
    case True
    with tt assms(5) text_output_status [of e w2 t l b st] show ?thesis
      by (auto simp: translate_def split: prod.splits sum.splits)
  next
    case False
    with tt assms(5) pdf_output_status [of e w2 t l b st] show ?thesis
      by (auto simp: translate_def split: prod.splits sum.splits)
  qed
qed

text \<open>
  C5. A request with a file whose filename is not empty and with no \<open>language\<close> field,
  or an empty one, is answered with status 400, and the state is the one before the
  request: nothing has been saved and the model has not been called.
\<close>

theorem missing_language_400:
  assumes "request_files req ''file'' = Some up" and "upload_filename up \<noteq> []"
      and "request_form req ''language'' = None \<or> request_form req ''language'' = Some []"
  shows "translate e w req = (Inr (Body ''No target language specified'' 400), w)"
  using assms by (auto simp: translate_def translate_try_def)

theorem missing_language_400_witness:
  "request_files no_language_request ''file'' = Some sample_upload
   \<and> upload_filename sample_upload \<noteq> []
   \<and> request_form no_language_request ''language'' = None
   \<and> translate sample_env stale_world no_language_request
       = (Inr (Body ''No target language specified'' 400), stale_world)"
proof -
  have h1: "request_files no_language_request ''file'' = Some sample_upload"
    and h2: "upload_filename sample_upload \<noteq> []"
    and h3: "request_form no_language_request ''language'' = None"
    by (simp_all add: no_language_request_def sample_upload_def)
  from missing_language_400 [OF h1 h2, of sample_env stale_world] h3
  have "translate sample_env stale_world no_language_request
       = (Inr (Body ''No target language specified'' 400), stale_world)"
    by blast
  with h1 h2 h3 show ?thesis by blast
qed

text \<open>
  C6. When the client could not be initialised at process start, the chat handle is
  \<open>None\<close>, \<open>translate_text\<close> raises for every text and language, and every request that
  passes the three validations is answered with status 500.
\<close>

theorem no_client_500:
  assumes "vertex e = Inl err"
  shows "chat e = None
       \<and> translate_text e w txt lang = (Inl (RuntimeError ''Gemini not initialized''), w)
       \<and> (request_files req ''file'' = Some up \<longrightarrow> upload_filename up \<noteq> [] \<longrightarrow>
          request_form req ''language'' = Some target \<longrightarrow> target \<noteq> [] \<longrightarrow>
          (\<exists>body w1. translate e w req = (Inr (Body body 500), w1)))"
proof -
  have c: "chat e = None"
    using assms by (simp add: chat_def initialize_vertex_ai_def)
  have t: "\<And>w x l. translate_text e w x l = (Inl (RuntimeError ''Gemini not initialized''), w)"
    using c by (simp add: translate_text_def)
  show ?thesis
    using c t
    by (auto simp: translate_def translate_try_def Let_def
          split: option.splits prod.splits sum.splits)
qed

theorem no_client_500_witness:
  "vertex no_client_env = Inl (EnvError ''DefaultCredentialsError'')
   \<and> translate_text no_client_env empty_world ''Hello world'' ''Spanish''
       = (Inl (RuntimeError ''Gemini not initialized''), empty_world)
   \<and> (\<exists>body w1. translate no_client_env empty_world txt_request = (Inr (Body body 500), w1))
   \<and> fst (translate no_client_env empty_world txt_request)
       = Inr (Body ''Error: Gemini not initialized'' 500)"
proof -
  have h: "vertex no_client_env = Inl (EnvError ''DefaultCredentialsError'')"
    by (simp add: no_client_env_def)
  have v: "request_files txt_request ''file'' = Some sample_upload"
    "upload_filename sample_upload \<noteq> []"
    "request_form txt_request ''language'' = Some ''Spanish''"
    by (simp_all add: txt_request_def sample_upload_def)
  from no_client_500 [OF h, of empty_world "''Hello world''" "''Spanish''" txt_request
      sample_upload "''Spanish''"] v
  have t: "translate_text no_client_env empty_world ''Hello world'' ''Spanish''
       = (Inl (RuntimeError ''Gemini not initialized''), empty_world)"
    and r: "\<exists>body w1. translate no_client_env empty_world txt_request
                        = (Inr (Body body 500), w1)"
    by simp_all
  have b: "fst (translate no_client_env empty_world txt_request)
          = Inr (Body ''Error: Gemini not initialized'' 500)"
    by (simp add: run_defs sample_defs)
  from h t r b show ?thesis by blast
qed

text \<open>
  A target language with a line break cannot be put into the download name: once the
  upload is translated, whatever the output, the answer is an error.
\<close>

lemma text_output_newline:
  assumes "has_newline lang"
  shows "\<exists>w1. (\<exists>err. text_output e w t lang = (Inl err, w1))
            \<or> (\<exists>b. text_output e w t lang = (Inr (Body b 500), w1))"
proof (cases "create_text_file e w t ''translated_output.txt''")
  case (Pair created w1)
  from assms have "has_newline (''translated_'' @ lang @ ''.txt'')"
    by (simp only: has_newline_name)
  from send_file_newline [OF this, of e w1 "''translated_output.txt''"] Pair show ?thesis
    by (cases created) (auto simp: text_output_def)
qed

lemma pdf_attempt_newline:
  assumes "has_newline lang"
  shows "\<exists>err w1. pdf_attempt e w t lang = (Inl err, w1)"
proof (cases "add_text_block e (TranslatedPDF ''translated_output.pdf'') t")
  case (Pair r pdf1)
  show ?thesis
  proof (cases r)
    case (Some err)
    with Pair show ?thesis by (simp add: pdf_attempt_def)
  next
    case None
    obtain w1 where s: "save e w pdf1 = (None, w1)"
      using save_returns [of e w pdf1] by (cases "save e w pdf1") auto
    from assms have "has_newline (''translated_'' @ lang @ ''.pdf'')"
      by (simp only: has_newline_name)
    from send_file_newline [OF this, of e w1 "''translated_output.pdf''"] Pair None s
    show ?thesis by (auto simp: pdf_attempt_def)
  qed
qed

lemma pdf_output_newline:
  assumes "has_newline lang"
  shows "\<exists>w1. (\<exists>err. pdf_output e w t lang = (Inl err, w1))
            \<or> (\<exists>b. pdf_output e w t lang = (Inr (Body b 500), w1))"
proof -
  from pdf_attempt_newline [OF assms] obtain err w1
    where a: "pdf_attempt e w t lang = (Inl err, w1)" by blast
  obtain created w2 where c: "create_text_file e w1 t ''translated_output.txt'' = (created, w2)"
    by (cases "create_text_file e w1 t ''translated_output.txt''") auto
  from assms have "has_newline (''translated_'' @ lang @ ''.txt'')"
    by (simp only: has_newline_name)
  from send_file_newline [OF this, of e w2 "''translated_output.txt''"] a c show ?thesis
    by (cases created) (auto simp: pdf_output_def)
qed

lemma newline_language_500:
  assumes "before_output e w req = Some (lang, t, w2)" and "has_newline lang"
  shows "\<exists>b w1. translate e w req = (Inr (Body b 500), w1)"
proof -
  have "\<exists>w1. (\<exists>err. translate_try e w req = (Inl err, w1))
            \<or> (\<exists>b. translate_try e w req = (Inr (Body b 500), w1))"
    using translate_try_output [OF assms(1)] text_output_newline [OF assms(2), of e w2 t]
      pdf_output_newline [OF assms(2), of e w2 t]
    by (cases "request_form req ''format'' = Some ''txt''") simp_all
  then show ?thesis
    by (auto simp: translate_def)
qed

section \<open>The text output\<close>

text \<open>
  C2, as amended. For a request with \<open>format=txt\<close> whose upload has been saved,
  extracted and translated: when \<open>create_text_file\<close> writes the output file and the
  target language has no line break, the response is a text attachment that holds the
  text of the model call, character for character. When the file is written and the
  target language has a line break, \<open>send_file\<close> raises and the response is the 500
  answer of the outer handler. When the file cannot be written, the response is the 500
  answer \<open>Error creating text file\<close>.
\<close>

theorem txt_format_verbatim:
  assumes "before_output e w req = Some (lang, t, w2)"
      and "request_form req ''format'' = Some ''txt''"
  shows "(create_text_file e w2 t ''translated_output.txt'' = (True, w3) \<longrightarrow>
          \<not> has_newline lang \<longrightarrow>
            translate e w req
              = (Inr (Attachment (TextFile t) (''translated_'' @ lang @ ''.txt'')), w3))
       \<and> (create_text_file e w2 t ''translated_output.txt'' = (True, w3) \<longrightarrow>
          has_newline lang \<longrightarrow>
            translate e w req
              = (Inr (Body ''Error: Header values must not contain newline characters.'' 500),
                 w3))
       \<and> (create_text_file e w2 t ''translated_output.txt'' = (False, w3) \<longrightarrow>
            translate e w req = (Inr (Body ''Error creating text file'' 500), w3))"
proof -
  have tt: "translate_try e w req = text_output e w2 t lang"
    using translate_try_output [OF assms(1)] assms(2) by simp
  have there: "create_text_file e w2 t ''translated_output.txt'' = (True, w3) \<Longrightarrow>
      files w3 ''translated_output.txt'' = Some (TextFile t)"
    by (drule create_text_file_True) simp
  show ?thesis
  proof (intro conjI impI)
    assume c: "create_text_file e w2 t ''translated_output.txt'' = (True, w3)"
      and n: "\<not> has_newline lang"
    from n have "\<not> has_newline (''translated_'' @ lang @ ''.txt'')"
      unfolding has_newline_name .
    from send_file_sent [OF there [OF c] this, of e] c tt
    show "translate e w req
            = (Inr (Attachment (TextFile t) (''translated_'' @ lang @ ''.txt'')), w3)"
      by (simp add: translate_def text_output_def)
  next
    assume c: "create_text_file e w2 t ''translated_output.txt'' = (True, w3)"
      and n: "has_newline lang"
    from n have "has_newline (''translated_'' @ lang @ ''.txt'')"
      by (simp only: has_newline_name)
    from send_file_header [OF there [OF c] this, of e] c tt
    show "translate e w req
            = (Inr (Body ''Error: Header values must not contain newline characters.'' 500), w3)"
      by (simp add: translate_def text_output_def)
  next
    assume "create_text_file e w2 t ''translated_output.txt'' = (False, w3)"
    with tt show "translate e w req = (Inr (Body ''Error creating text file'' 500), w3)"
      by (simp add: translate_def text_output_def)
  qed
qed

theorem txt_format_verbatim_witness:
  "before_output sample_env empty_world txt_request
     = Some (''Spanish'', ''Hola'' @ [LF] @ ''mundo'', translated_world)
   \<and> request_form txt_request ''format'' = Some ''txt''
   \<and> fst (create_text_file sample_env translated_world (''Hola'' @ [LF] @ ''mundo'')
            ''translated_output.txt'')
   \<and> \<not> has_newline ''Spanish''
   \<and> fst (translate sample_env empty_world txt_request)
       = Inr (Attachment (TextFile (''Hola'' @ [LF] @ ''mundo'')) ''translated_Spanish.txt'')"
proof -
  let ?w3 = "snd (create_text_file sample_env translated_world (''Hola'' @ [LF] @ ''mundo'')
                    ''translated_output.txt'')"
  have h1: "before_output sample_env empty_world txt_request
     = Some (''Spanish'', ''Hola'' @ [LF] @ ''mundo'', translated_world)"
    by (rule sample_before_output)
  have h2: "request_form txt_request ''format'' = Some ''txt''"
    by (simp add: txt_request_def)
  have h3: "create_text_file sample_env translated_world (''Hola'' @ [LF] @ ''mundo'')
              ''translated_output.txt'' = (True, ?w3)"
    by (simp add: create_text_file_def write_text_def sample_env_def)
  have h3': "fst (create_text_file sample_env translated_world (''Hola'' @ [LF] @ ''mundo'')
              ''translated_output.txt'')"
    by (simp add: create_text_file_def write_text_def sample_env_def)
  have h4: "\<not> has_newline ''Spanish''"
    by (simp add: has_newline_def)
  from txt_format_verbatim [OF h1 h2, of ?w3] h3 h4
  have "translate sample_env empty_world txt_request
          = (Inr (Attachment (TextFile (''Hola'' @ [LF] @ ''mundo''))
                    (''translated_'' @ ''Spanish'' @ ''.txt'')), ?w3)"
    by blast
  with h1 h2 h3' h4 show ?thesis by simp
qed

text \<open>
  The claim as stated fails where the output file cannot be written, and where the
  target language has a line break: in both, the upload is saved, extracted and
  translated, and the request with \<open>format=txt\<close> is answered with status 500.
\<close>

theorem txt_format_verbatim_counterexample:
  "before_output read_only_env empty_world txt_request
     = Some (''Spanish'', ''Hola'' @ [LF] @ ''mundo'', translated_world)
   \<and> request_form txt_request ''format'' = Some ''txt''
   \<and> fst (translate read_only_env empty_world txt_request)
       = Inr (Body ''Error creating text file'' 500)
   \<and> before_output sample_env empty_world txt_newline_request
       = Some (''Old'' @ [LF] @ ''English'', ''Hola'' @ [LF] @ ''mundo'', newline_world)
   \<and> request_form txt_newline_request ''format'' = Some ''txt''
   \<and> fst (translate sample_env empty_world txt_newline_request)
       = Inr (Body ''Error: Header values must not contain newline characters.'' 500)"
  by (simp add: run_defs sample_defs)

section \<open>The choice of the output\<close>

text \<open>
  C9. For a request that passes the three validations and whose \<open>format\<close> field is
  absent or is anything but \<open>txt\<close>: the handler does what it does for the same request
  with \<open>format=pdf\<close>, it never answers with status 400, and once the upload is
  translated it runs the PDF output.
\<close>

theorem other_formats_are_pdf:
  assumes "request_files req ''file'' = Some up" and "upload_filename up \<noteq> []"
      and "request_form req ''language'' = Some lang" and "lang \<noteq> []"
      and "request_form req ''format'' \<noteq> Some ''txt''"
  shows "translate e w req
           = translate e w (req\<lparr>request_form := (request_form req)(''format'' \<mapsto> ''pdf'')\<rparr>)
       \<and> (\<forall>b. fst (translate e w req) \<noteq> Inr (Body b 400))
       \<and> (before_output e w req = Some (lang, t, w2) \<longrightarrow>
            translate_try e w req = pdf_output e w2 t lang)"
proof (intro conjI allI impI)
  show "translate e w req
           = translate e w (req\<lparr>request_form := (request_form req)(''format'' \<mapsto> ''pdf'')\<rparr>)"
    using assms
    by (auto simp: translate_def translate_try_def Let_def
          split: option.splits prod.splits sum.splits)
next
  fix b
  show "fst (translate e w req) \<noteq> Inr (Body b 400)"
    using translate_status [OF assms(1-4), of e w b 400] by auto
next
  assume "before_output e w req = Some (lang, t, w2)"
  then show "translate_try e w req = pdf_output e w2 t lang"
    using translate_try_output assms(5) by simp
qed

theorem other_formats_are_pdf_witness:
  "request_form docx_request ''format'' = Some ''docx''
   \<and> request_form pdf_request ''format'' = None
   \<and> translate sample_env empty_world docx_request
       = translate sample_env empty_world
           (docx_request\<lparr>request_form := (request_form docx_request)(''format'' \<mapsto> ''pdf'')\<rparr>)
   \<and> translate_try sample_env empty_world docx_request
       = pdf_output sample_env translated_world (''Hola'' @ [LF] @ ''mundo'') ''Spanish''
   \<and> translate_try sample_env empty_world pdf_request
       = pdf_output sample_env translated_world (''Hola'' @ [LF] @ ''mundo'') ''Spanish''
   \<and> fst (pdf_output sample_env translated_world (''Hola'' @ [LF] @ ''mundo'') ''Spanish'')
       = Inr (Attachment (PdfFile (Built [Paragraph ''Hola'', Paragraph ''mundo'']))
                ''translated_Spanish.pdf'')"
proof -
  have d: "request_files docx_request ''file'' = Some sample_upload"
    "upload_filename sample_upload \<noteq> []"
    "request_form docx_request ''language'' = Some ''Spanish''"
    "''Spanish'' \<noteq> []"
    "request_form docx_request ''format'' \<noteq> Some ''txt''"
    by (simp_all add: docx_request_def sample_upload_def)
  have p: "request_files pdf_request ''file'' = Some sample_upload"
    "upload_filename sample_upload \<noteq> []"
    "request_form pdf_request ''language'' = Some ''Spanish''"
    "''Spanish'' \<noteq> []"
    "request_form pdf_request ''format'' \<noteq> Some ''txt''"
    by (simp_all add: pdf_request_def sample_upload_def)
  have f: "request_form docx_request ''format'' = Some ''docx''"
    "request_form pdf_request ''format'' = None"
    by (simp_all add: docx_request_def pdf_request_def)
  from other_formats_are_pdf [OF d, of sample_env empty_world "''Hola'' @ [LF] @ ''mundo''"
      translated_world] sample_before_output(3)
  have 1: "translate sample_env empty_world docx_request
       = translate sample_env empty_world
           (docx_request\<lparr>request_form := (request_form docx_request)(''format'' \<mapsto> ''pdf'')\<rparr>)"
    and 2: "translate_try sample_env empty_world docx_request
       = pdf_output sample_env translated_world (''Hola'' @ [LF] @ ''mundo'') ''Spanish''"
    by blast+
  from other_formats_are_pdf [OF p, of sample_env empty_world "''Hola'' @ [LF] @ ''mundo''"
      translated_world] sample_before_output(2)
  have 3: "translate_try sample_env empty_world pdf_request
       = pdf_output sample_env translated_world (''Hola'' @ [LF] @ ''mundo'') ''Spanish''"
    by blast
  have 4: "fst (pdf_output sample_env translated_world (''Hola'' @ [LF] @ ''mundo'') ''Spanish'')
       = Inr (Attachment (PdfFile (Built [Paragraph ''Hola'', Paragraph ''mundo'']))
                ''translated_Spanish.pdf'')"
    by (simp add: run_defs sample_defs)
  from f 1 2 3 4 show ?thesis by blast
qed

section \<open>Exceptions at the handler boundary\<close>

text \<open>
  C7, as amended. The handler never propagates an exception: every request gets a
  response. Every exception that leaves the body of the handler's \<open>try\<close> block is
  answered with status 500 and the body \<open>Error: \<close> followed by the message of the
  exception. For a request that passes the three validations these are, in particular,
  an exception raised while the upload is saved, while its text is extracted or while it
  is translated, and an exception that \<open>send_file\<close> raises for the text file, in the
  \<open>txt\<close> branch and in the fall back of the PDF branch. An exception that leaves the
  PDF attempt while the text file cannot be written is answered with status 500 and the
  body \<open>Error creating output file: \<close> followed by its message.
\<close>

theorem handler_catches:
  "(\<exists>r w'. translate e w req = (Inr r, w'))
   \<and> (translate_try e w req = (Inl err, w1) \<longrightarrow>
        translate e w req = (Inr (Body (''Error: '' @ exn_msg err) 500), w1))
   \<and> (request_files req ''file'' = Some up \<longrightarrow> upload_filename up \<noteq> [] \<longrightarrow>
      request_form req ''language'' = Some lang \<longrightarrow> lang \<noteq> [] \<longrightarrow>
      path = os_path_join UPLOAD_FOLDER (secure_filename e (upload_filename up)) \<longrightarrow>
        (upload_save e w path (upload_content up) = (Some err, w1) \<longrightarrow>
           translate e w req = (Inr (Body (''Error: '' @ exn_msg err) 500), w1))
      \<and> (upload_save e w path (upload_content up) = (None, w1) \<longrightarrow>
         extract_text e w1 path = Inl err \<longrightarrow>
           translate e w req = (Inr (Body (''Error: '' @ exn_msg err) 500), w1))
      \<and> (upload_save e w path (upload_content up) = (None, w1) \<longrightarrow>
         extract_text e w1 path = Inr original \<longrightarrow>
         translate_text e w1 original lang = (Inl err, w2) \<longrightarrow>
           translate e w req = (Inr (Body (''Error: '' @ exn_msg err) 500), w2)))
   \<and> (before_output e w req = Some (lang, t, w2) \<longrightarrow>
      request_form req ''format'' = Some ''txt'' \<longrightarrow>
      create_text_file e w2 t ''translated_output.txt'' = (True, w3) \<longrightarrow>
      send_file e w3 ''translated_output.txt'' (''translated_'' @ lang @ ''.txt'') = Inl err \<longrightarrow>
        translate e w req = (Inr (Body (''Error: '' @ exn_msg err) 500), w3))
   \<and> (before_output e w req = Some (lang, t, w2) \<longrightarrow>
      request_form req ''format'' \<noteq> Some ''txt'' \<longrightarrow>
      pdf_attempt e w2 t lang = (Inl pdf_error, w3) \<longrightarrow>
        (create_text_file e w3 t ''translated_output.txt'' = (True, w4) \<longrightarrow>
         send_file e w4 ''translated_output.txt'' (''translated_'' @ lang @ ''.txt'') = Inl err \<longrightarrow>
           translate e w req = (Inr (Body (''Error: '' @ exn_msg err) 500), w4))
      \<and> (create_text_file e w3 t ''translated_output.txt'' = (False, w4) \<longrightarrow>
           translate e w req
             = (Inr (Body (''Error creating output file: '' @ exn_msg pdf_error) 500), w4)))"
proof (intro conjI impI)
  show "\<exists>r w'. translate e w req = (Inr r, w')"
    by (cases "translate_try e w req") (auto simp: translate_def split: sum.splits)
next
  assume "translate_try e w req = (Inl err, w1)"
  then show "translate e w req = (Inr (Body (''Error: '' @ exn_msg err) 500), w1)"
    by (simp add: translate_def)
next
  assume "before_output e w req = Some (lang, t, w2)"
    and "request_form req ''format'' = Some ''txt''"
    and "create_text_file e w2 t ''translated_output.txt'' = (True, w3)"
    and "send_file e w3 ''translated_output.txt'' (''translated_'' @ lang @ ''.txt'') = Inl err"
  then show "translate e w req = (Inr (Body (''Error: '' @ exn_msg err) 500), w3)"
    using translate_try_output [of e w req lang t w2]
    by (simp add: translate_def text_output_def)
next
  assume "before_output e w req = Some (lang, t, w2)"
    and "request_form req ''format'' \<noteq> Some ''txt''"
    and "pdf_attempt e w2 t lang = (Inl pdf_error, w3)"
    and "create_text_file e w3 t ''translated_output.txt'' = (True, w4)"
    and "send_file e w4 ''translated_output.txt'' (''translated_'' @ lang @ ''.txt'') = Inl err"
  then show "translate e w req = (Inr (Body (''Error: '' @ exn_msg err) 500), w4)"
    using translate_try_output [of e w req lang t w2]
    by (simp add: translate_def pdf_output_def)
next
  assume "before_output e w req = Some (lang, t, w2)"
    and "request_form req ''format'' \<noteq> Some ''txt''"
    and "pdf_attempt e w2 t lang = (Inl pdf_error, w3)"
    and "create_text_file e w3 t ''translated_output.txt'' = (False, w4)"
  then show "translate e w req
             = (Inr (Body (''Error creating output file: '' @ exn_msg pdf_error) 500), w4)"
    using translate_try_output [of e w req lang t w2]
    by (simp add: translate_def pdf_output_def)
qed (simp_all add: translate_def translate_try_def Let_def)

theorem handler_catches_witness:
  "translate_text no_client_env
        (empty_world\<lparr>files := [''uploads/hello.txt'' \<mapsto> TextFile ''Hello world'']\<rparr>)
        ''Hello world'' ''Spanish''
       = (Inl (RuntimeError ''Gemini not initialized''),
          empty_world\<lparr>files := [''uploads/hello.txt'' \<mapsto> TextFile ''Hello world'']\<rparr>)
   \<and> translate no_client_env empty_world txt_request
       = (Inr (Body ''Error: Gemini not initialized'' 500),
          empty_world\<lparr>files := [''uploads/hello.txt'' \<mapsto> TextFile ''Hello world'']\<rparr>)
   \<and> send_file sample_env
        (newline_world\<lparr>files := (files newline_world)
            (''translated_output.txt'' \<mapsto> TextFile (''Hola'' @ [LF] @ ''mundo''))\<rparr>)
        ''translated_output.txt'' (''translated_'' @ newline_language @ ''.txt'')
       = Inl (ValueError ''Header values must not contain newline characters.'')
   \<and> fst (translate sample_env empty_world txt_newline_request)
       = Inr (Body ''Error: Header values must not contain newline characters.'' 500)"
proof -
  let ?w1 = "empty_world\<lparr>files := [''uploads/hello.txt'' \<mapsto> TextFile ''Hello world'']\<rparr>"
  let ?t = "''Hola'' @ [LF] @ ''mundo''"
  let ?w3 = "newline_world\<lparr>files := (files newline_world)
                (''translated_output.txt'' \<mapsto> TextFile ?t)\<rparr>"
  have v: "request_files txt_request ''file'' = Some sample_upload"
    "upload_filename sample_upload \<noteq> []"
    "request_form txt_request ''language'' = Some ''Spanish''"
    "''Spanish'' \<noteq> []"
    "''uploads/hello.txt''
       = os_path_join UPLOAD_FOLDER (secure_filename no_client_env (upload_filename sample_upload))"
    by (simp_all add: txt_request_def sample_upload_def os_path_join_def UPLOAD_FOLDER_def
          no_client_env_def sample_env_def)
  have s: "upload_save no_client_env empty_world ''uploads/hello.txt''
             (upload_content sample_upload) = (None, ?w1)"
    by (simp add: upload_save_def no_client_env_def sample_env_def sample_upload_def
          empty_world_def)
  have x: "extract_text no_client_env ?w1 ''uploads/hello.txt'' = Inr ''Hello world''"
    by (simp add: extract_text_def endswith_def read_text_def empty_world_def)
  have t: "translate_text no_client_env ?w1 ''Hello world'' ''Spanish''
       = (Inl (RuntimeError ''Gemini not initialized''), ?w1)"
    by (simp add: translate_text_def chat_def initialize_vertex_ai_def no_client_env_def)
  from handler_catches [where e = no_client_env and w = empty_world and req = txt_request
      and err = "RuntimeError ''Gemini not initialized''" and ?w1.0 = ?w1
      and up = sample_upload and lang = "''Spanish''" and path = "''uploads/hello.txt''"
      and original = "''Hello world''" and ?w2.0 = ?w1] v s x t
  have 1: "translate no_client_env empty_world txt_request
       = (Inr (Body (''Error: '' @ exn_msg (RuntimeError ''Gemini not initialized'')) 500), ?w1)"
    by blast
  have f: "request_form txt_newline_request ''format'' = Some ''txt''"
    by (simp add: txt_newline_request_def)
  have c: "create_text_file sample_env newline_world ?t ''translated_output.txt'' = (True, ?w3)"
    by (simp add: create_text_file_def write_text_def sample_env_def)
  have d: "send_file sample_env ?w3 ''translated_output.txt''
             (''translated_'' @ newline_language @ ''.txt'')
       = Inl (ValueError ''Header values must not contain newline characters.'')"
    by (simp add: send_file_def has_newline_def newline_language_def)
  from handler_catches [where e = sample_env and w = empty_world
      and req = txt_newline_request
      and err = "ValueError ''Header values must not contain newline characters.''"
      and lang = newline_language and t = ?t and ?w2.0 = newline_world and ?w3.0 = ?w3]
    sample_before_output(8) f c d
  have 2: "translate sample_env empty_world txt_newline_request
       = (Inr (Body (''Error: ''
            @ exn_msg (ValueError ''Header values must not contain newline characters.'')) 500),
          ?w3)"
    by blast
  from t 1 d 2 show ?thesis by simp
qed

text \<open>
  The claim as stated fails for an exception that the output code catches itself: the
  upload is translated, \<open>doc.build\<close> raises inside \<open>save\<close>, and the response is not an
  error but the placeholder PDF, which does not hold the message of the exception.
\<close>

theorem handler_catches_counterexample:
  "before_output layout_error_env empty_world pdf_request
     = Some (''Spanish'', ''Hola'' @ [LF] @ ''mundo'', translated_world)
   \<and> fst (doc_build layout_error_env translated_world
            \<lparr>filename = ''translated_output.pdf'',
             story = [Paragraph ''Hola'', Paragraph ''mundo'']\<rparr>)
       = Some (EnvError ''LayoutError'')
   \<and> fst (translate layout_error_env empty_world pdf_request)
       = Inr (Attachment (PdfFile (Drawn fallback_page)) ''translated_Spanish.pdf'')"
  by (simp add: run_defs sample_defs)

section \<open>The story of the PDF\<close>

lemma accepted_simps [simp]:
  "accepted e (Paragraph t) = (paragraph_fails e t = None)"
  "accepted e (Spacer a b)"
  by (simp_all add: accepted_def)

lemma takeWhile_all: "list_all P xs \<Longrightarrow> takeWhile P (xs @ ys) = xs @ takeWhile P ys"
  by (induction xs) auto

lemma takeWhile_full: "list_all P xs \<Longrightarrow> takeWhile P xs = xs"
  by (induction xs) auto

lemma takeWhile_stop: "\<not> list_all P xs \<Longrightarrow> takeWhile P (xs @ ys) = takeWhile P xs"
  by (induction xs) auto

lemma add_lines_ok:
  "list_all (accepted e) (map Paragraph ls) \<Longrightarrow>
   add_lines e ls st = (None, st @ map Paragraph ls)"
  by (induction ls arbitrary: st) (auto simp: new_paragraph_def)

lemma add_lines_fail:
  "\<not> list_all (accepted e) (map Paragraph ls) \<Longrightarrow>
   \<exists>err. add_lines e ls st = (Some err, st @ takeWhile (accepted e) (map Paragraph ls))"
proof (induction ls arbitrary: st)
  case Nil
  then show ?case by simp
next
  case (Cons l ls)
  show ?case
  proof (cases "paragraph_fails e l")
    case None
    with Cons.prems have "\<not> list_all (accepted e) (map Paragraph ls)"
      by simp
    from Cons.IH [OF this, of "st @ [Paragraph l]"] None show ?thesis
      by (simp add: new_paragraph_def)
  next
    case (Some err)
    then show ?thesis
      by (simp add: new_paragraph_def)
  qed
qed

lemma add_paragraphs_step:
  assumes "list_all (accepted e) (paragraph_pieces e para)"
  shows "add_paragraphs e (para # ps) st = add_paragraphs e ps (st @ paragraph_pieces e para)"
proof (cases "strip para \<noteq> [] \<and> 100 < length para")
  case True
  with assms have "list_all (accepted e) (map Paragraph (textwrap_wrap e para 80))"
    by (simp add: paragraph_pieces_def)
  from add_lines_ok [OF this] True show ?thesis
    by (simp add: paragraph_pieces_def)
next
  case False
  with assms show ?thesis
    by (auto simp: paragraph_pieces_def new_paragraph_def)
qed

lemma add_paragraphs_stop:
  assumes "\<not> list_all (accepted e) (paragraph_pieces e para)"
  shows "\<exists>err. add_paragraphs e (para # ps) st
           = (Some err, st @ takeWhile (accepted e) (paragraph_pieces e para))"
proof (cases "strip para \<noteq> [] \<and> 100 < length para")
  case True
  with assms have "\<not> list_all (accepted e) (map Paragraph (textwrap_wrap e para 80))"
    by (simp add: paragraph_pieces_def)
  from add_lines_fail [OF this, of st] True show ?thesis
    by (auto simp: paragraph_pieces_def)
next
  case False
  with assms show ?thesis
    by (auto simp: paragraph_pieces_def new_paragraph_def)
qed

lemma add_paragraphs_ok:
  "list_all (accepted e) (concat (map (paragraph_pieces e) ps)) \<Longrightarrow>
   add_paragraphs e ps st = (None, st @ concat (map (paragraph_pieces e) ps))"
proof (induction ps arbitrary: st)
  case Nil
  then show ?case by simp
next
  case (Cons para ps)
  from Cons.prems have here: "list_all (accepted e) (paragraph_pieces e para)"
    and rest: "list_all (accepted e) (concat (map (paragraph_pieces e) ps))"
    by simp_all
  from add_paragraphs_step [OF here] Cons.IH [OF rest] show ?case
    by simp
qed

lemma add_paragraphs_fail:
  "\<not> list_all (accepted e) (concat (map (paragraph_pieces e) ps)) \<Longrightarrow>
   \<exists>err. add_paragraphs e ps st
     = (Some err, st @ takeWhile (accepted e) (concat (map (paragraph_pieces e) ps)))"
proof (induction ps arbitrary: st)
  case Nil
  then show ?case by simp
next
  case (Cons para ps)
  show ?case
  proof (cases "list_all (accepted e) (paragraph_pieces e para)")
    case True
    with Cons.prems have "\<not> list_all (accepted e) (concat (map (paragraph_pieces e) ps))"
      by simp
    from Cons.IH [OF this, of "st @ paragraph_pieces e para"]
      add_paragraphs_step [OF True, of ps st] takeWhile_all [OF True]
    show ?thesis by simp
  next
    case False
    from add_paragraphs_stop [OF False, of ps st] takeWhile_stop [OF False]
    show ?thesis by simp
  qed
qed

lemma split_nl_not_Nil: "split_nl s \<noteq> []"
  by (induction s) (auto split: list.splits)

lemma join_Cons: "ps \<noteq> [] \<Longrightarrow> join sep (p # ps) = p @ sep @ join sep ps"
  by (cases ps) auto

lemma join_split_nl: "join [LF] (split_nl s) = s"
proof (induction s)
  case Nil
  then show ?case by simp
next
  case (Cons c cs)
  show ?case
  proof (cases "c = LF")
    case True
    then show ?thesis using Cons split_nl_not_Nil [of cs] by (simp add: join_Cons)
  next
    case False
    obtain p ps where sp: "split_nl cs = p # ps"
      using split_nl_not_Nil [of cs] by (cases "split_nl cs") auto
    from sp Cons.IH False show ?thesis by (cases ps) simp_all
  qed
qed

lemma split_nl_no_LF: "p \<in> set (split_nl s) \<Longrightarrow> LF \<notin> set p"
  by (induction s arbitrary: p) (auto split: if_splits list.splits)

lemma split_nl_single: "LF \<notin> set s \<Longrightarrow> split_nl s = [s]"
  by (induction s) auto

text \<open>
  What \<open>add_text_block\<close> leaves in the story, for every text: the layout as far as the
  paragraph parser accepts it, and the fallback sentence after the first piece it
  rejects.
\<close>

lemma add_text_block_story:
  "story (snd (add_text_block e self txt))
     = story self @ takeWhile (accepted e) (layout e txt)
       @ (if list_all (accepted e) (layout e txt) \<or> paragraph_fails e fallback_text \<noteq> None
          then [] else [Paragraph fallback_text])"
proof (cases "list_all (accepted e) (layout e txt)")
  case True
  with add_paragraphs_ok [of e "split_nl txt" "story self"] show ?thesis
    by (simp add: add_text_block_def layout_def takeWhile_full)
next
  case False
  with add_paragraphs_fail [of e "split_nl txt" "story self"]
  obtain err where "add_paragraphs e (split_nl txt) (story self)
      = (Some err, story self @ takeWhile (accepted e) (layout e txt))"
    by (auto simp: layout_def)
  with False show ?thesis
    by (cases "paragraph_fails e fallback_text")
       (simp_all add: add_text_block_def new_paragraph_def)
qed

text \<open>
  C8, as amended. For every text whose pieces the paragraph parser all accepts,
  \<open>add_text_block\<close> adds the layout of the text to the story: the text split on newlines
  (the pieces have no newline and, joined by newlines, give the text back), a blank piece
  as a spacer, a piece of more than 100 characters as the paragraphs that \<open>textwrap.wrap\<close>
  makes of it at the one width 80, and any other piece, also one of 81 to 100 characters,
  as one paragraph, unwrapped.
\<close>

theorem add_text_block_layout:
  assumes "list_all (accepted e) (layout e txt)"
  shows "add_text_block e self txt = (None, self\<lparr>story := story self @ layout e txt\<rparr>)
       \<and> join [LF] (split_nl txt) = txt
       \<and> (\<forall>para \<in> set (split_nl txt).
            LF \<notin> set para
            \<and> (strip para \<noteq> [] \<longrightarrow> 100 < length para \<longrightarrow>
                 paragraph_pieces e para = map Paragraph (textwrap_wrap e para 80))
            \<and> (strip para \<noteq> [] \<longrightarrow> length para \<le> 100 \<longrightarrow>
                 paragraph_pieces e para = [Paragraph para])
            \<and> (strip para = [] \<longrightarrow> paragraph_pieces e para = [Spacer 1 6]))"
  using assms add_paragraphs_ok [of e "split_nl txt" "story self"] split_nl_no_LF [of _ "txt"]
  by (simp add: add_text_block_def layout_def join_split_nl paragraph_pieces_def)

theorem add_text_block_layout_witness:
  "layout sample_env (''Hola'' @ [LF, LF] @ replicate 101 (CHR ''x''))
     = [Paragraph ''Hola'', Spacer 1 6, Paragraph (replicate 80 (CHR ''x'')),
        Paragraph (replicate 21 (CHR ''x''))]
   \<and> list_all (accepted sample_env)
        (layout sample_env (''Hola'' @ [LF, LF] @ replicate 101 (CHR ''x'')))
   \<and> add_text_block sample_env (TranslatedPDF ''o.pdf'')
       (''Hola'' @ [LF, LF] @ replicate 101 (CHR ''x''))
     = (None, \<lparr>filename = ''o.pdf'',
               story = [Paragraph ''Hola'', Spacer 1 6,
                        Paragraph (replicate 80 (CHR ''x'')),
                        Paragraph (replicate 21 (CHR ''x''))]\<rparr>)"
proof -
  let ?long = "''Hola'' @ [LF, LF] @ replicate 101 (CHR ''x'')"
  have l: "layout sample_env ?long
     = [Paragraph ''Hola'', Spacer 1 6, Paragraph (replicate 80 (CHR ''x'')),
        Paragraph (replicate 21 (CHR ''x''))]"
    by (simp add: layout_def paragraph_pieces_def strip_def isspace_def sample_env_def
          split_nl_single)
  have a: "list_all (accepted sample_env) (layout sample_env ?long)"
    unfolding l by (simp add: sample_env_def)
  from add_text_block_layout [OF a, of "TranslatedPDF ''o.pdf''"]
  have "add_text_block sample_env (TranslatedPDF ''o.pdf'') ?long
          = (None, (TranslatedPDF ''o.pdf'')
                     \<lparr>story := story (TranslatedPDF ''o.pdf'') @ layout sample_env ?long\<rparr>)"
    by blast
  then have 1: "add_text_block sample_env (TranslatedPDF ''o.pdf'') ?long
     = (None, \<lparr>filename = ''o.pdf'',
               story = [Paragraph ''Hola'', Spacer 1 6,
                        Paragraph (replicate 80 (CHR ''x'')),
                        Paragraph (replicate 21 (CHR ''x''))]\<rparr>)"
    unfolding l by (simp add: TranslatedPDF_def)
  from l a 1 show ?thesis by blast
qed

text \<open>
  The claim as stated fails for a text with a piece that the paragraph parser rejects:
  of the three lines \<open>a\<close>, \<open><b\<close>, \<open>c\<close> only the first is laid out, and the fixed
  sentence stands for the rest. And a line of 90 characters, longer than the width of the
  wrapping, is added unwrapped.
\<close>

theorem add_text_block_layout_counterexample:
  "layout markup_env (''a'' @ [LF] @ ''<b'' @ [LF] @ ''c'')
     = [Paragraph ''a'', Paragraph ''<b'', Paragraph ''c'']
   \<and> paragraph_fails markup_env ''<b'' = Some (EnvError ''paraparser: syntax error'')
   \<and> add_text_block markup_env (TranslatedPDF ''o.pdf'') (''a'' @ [LF] @ ''<b'' @ [LF] @ ''c'')
       = (None, \<lparr>filename = ''o.pdf'', story = [Paragraph ''a'', Paragraph fallback_text]\<rparr>)
   \<and> length (replicate 90 (CHR ''x'')) > 80
   \<and> add_text_block sample_env (TranslatedPDF ''o.pdf'') (replicate 90 (CHR ''x''))
       = (None, \<lparr>filename = ''o.pdf'', story = [Paragraph (replicate 90 (CHR ''x''))]\<rparr>)"
  by (simp add: layout_def paragraph_pieces_def strip_def isspace_def markup_env_def
        sample_env_def add_text_block_def TranslatedPDF_def new_paragraph_def
        fallback_text_def split_nl_single)

section \<open>The PDF output and its fall backs\<close>

text \<open>
  C10. Where the layout library accepts the fixed fallback sentence as a paragraph,
  \<open>add_text_block\<close> returns without an exception for every text, and \<open>save\<close> returns
  without an exception in every case. So the \<open>try\<close> block of the PDF output always
  reaches \<open>send_file\<close> for the path of the PDF, in the state that \<open>save\<close> has left. An
  exception of the loop is answered by the fallback paragraph at the end of the story,
  and an exception of \<open>doc.build\<close> by the placeholder page, when the canvas can draw it.
\<close>

theorem pdf_methods_never_raise:
  assumes "paragraph_fails e fallback_text = None"
  shows "fst (add_text_block e self txt) = None
       \<and> fst (save e w self) = None
       \<and> pdf_attempt e w txt lang
           = (send_file e
                (snd (save e w (snd (add_text_block e (TranslatedPDF ''translated_output.pdf'') txt))))
                ''translated_output.pdf'' (''translated_'' @ lang @ ''.pdf''),
              snd (save e w (snd (add_text_block e (TranslatedPDF ''translated_output.pdf'') txt))))
       \<and> (fst (add_paragraphs e (split_nl txt) (story self)) \<noteq> None \<longrightarrow>
            last (story (snd (add_text_block e self txt))) = Paragraph fallback_text)
       \<and> (build_fails e (story self) \<noteq> None \<longrightarrow> canvas_fails e = None \<longrightarrow>
            files (snd (save e w self)) (filename self) = Some (PdfFile (Drawn fallback_page)))"
proof -
  have a: "\<And>p. fst (add_text_block e p txt) = None"
    using assms
    by (auto simp: add_text_block_def new_paragraph_def split: prod.splits option.splits)
  have s: "\<And>p. fst (save e w p) = None" by (rule save_returns)
  have "pdf_attempt e w txt lang
           = (send_file e
                (snd (save e w (snd (add_text_block e (TranslatedPDF ''translated_output.pdf'') txt))))
                ''translated_output.pdf'' (''translated_'' @ lang @ ''.pdf''),
              snd (save e w (snd (add_text_block e (TranslatedPDF ''translated_output.pdf'') txt))))"
    using a [of "TranslatedPDF ''translated_output.pdf''"]
      s [of "snd (add_text_block e (TranslatedPDF ''translated_output.pdf'') txt)"]
    by (auto simp: pdf_attempt_def Let_def split: prod.splits option.splits)
  moreover have "fst (add_paragraphs e (split_nl txt) (story self)) \<noteq> None \<longrightarrow>
            last (story (snd (add_text_block e self txt))) = Paragraph fallback_text"
    using assms
    by (auto simp: add_text_block_def new_paragraph_def split: prod.splits option.splits)
  moreover have "build_fails e (story self) \<noteq> None \<longrightarrow> canvas_fails e = None \<longrightarrow>
            files (snd (save e w self)) (filename self) = Some (PdfFile (Drawn fallback_page))"
    by (auto simp: save_def doc_build_def create_fallback_pdf_def canvas_draw_def)
  ultimately show ?thesis using a s by blast
qed

theorem pdf_methods_never_raise_witness:
  "paragraph_fails markup_env fallback_text = None
   \<and> fst (add_text_block markup_env (TranslatedPDF ''translated_output.pdf'')
            (''a'' @ [LF] @ ''<b'' @ [LF] @ ''c'')) = None
   \<and> fst (add_paragraphs markup_env (split_nl (''a'' @ [LF] @ ''<b'' @ [LF] @ ''c'')) [])
       = Some (EnvError ''paraparser: syntax error'')
   \<and> last (story (snd (add_text_block markup_env (TranslatedPDF ''translated_output.pdf'')
                        (''a'' @ [LF] @ ''<b'' @ [LF] @ ''c''))))
       = Paragraph fallback_text
   \<and> fst (save markup_env empty_world (TranslatedPDF ''translated_output.pdf'')) = None"
proof -
  let ?bad = "''a'' @ [LF] @ ''<b'' @ [LF] @ ''c''"
  let ?pdf = "TranslatedPDF ''translated_output.pdf''"
  have h: "paragraph_fails markup_env fallback_text = None"
    by (simp add: markup_env_def fallback_text_def)
  have r: "fst (add_paragraphs markup_env (split_nl ?bad) (story ?pdf))
       = Some (EnvError ''paraparser: syntax error'')"
    by (simp add: markup_env_def strip_def isspace_def new_paragraph_def TranslatedPDF_def)
  from pdf_methods_never_raise [OF h, of ?pdf ?bad empty_world "''Spanish''"] r
  have "fst (add_text_block markup_env ?pdf ?bad) = None"
    and "last (story (snd (add_text_block markup_env ?pdf ?bad))) = Paragraph fallback_text"
    and "fst (save markup_env empty_world ?pdf) = None"
    by simp_all
  with h r show ?thesis by (simp add: TranslatedPDF_def)
qed

lemma pdf_attempt_drawn:
  assumes "add_text_block e (TranslatedPDF ''translated_output.pdf'') t = (None, pdf1)"
      and "build_fails e (story pdf1) = Some err"
      and "canvas_fails e = None"
      and "\<not> has_newline lang"
  shows "pdf_attempt e w t lang
        = (Inr (Attachment (PdfFile (Drawn fallback_page)) (''translated_'' @ lang @ ''.pdf'')),
           w\<lparr>files := (files w)(''translated_output.pdf'' \<mapsto> PdfFile (Drawn fallback_page))\<rparr>)"
proof -
  have fn: "filename pdf1 = ''translated_output.pdf''"
    using assms(1)
    by (auto simp: add_text_block_def TranslatedPDF_def split: prod.splits option.splits sum.splits)
  from assms(4) have "\<not> has_newline (''translated_'' @ lang @ ''.pdf'')"
    unfolding has_newline_name .
  with assms(1-3) fn show ?thesis
    by (simp add: pdf_attempt_def Let_def save_def doc_build_def create_fallback_pdf_def
          canvas_draw_def send_file_def)
qed

lemma pdf_attempt_absent:
  assumes "add_text_block e (TranslatedPDF ''translated_output.pdf'') t = (None, pdf1)"
      and "build_fails e (story pdf1) = Some err"
      and "canvas_fails e \<noteq> None"
      and "files w ''translated_output.pdf'' = None"
  shows "pdf_attempt e w t lang
        = (Inl (EnvError (message e NoFileToSend ''translated_output.pdf'')), w)"
proof -
  have fn: "filename pdf1 = ''translated_output.pdf''"
    using assms(1)
    by (auto simp: add_text_block_def TranslatedPDF_def split: prod.splits option.splits sum.splits)
  with assms show ?thesis
    by (auto simp: pdf_attempt_def Let_def save_def doc_build_def create_fallback_pdf_def
          canvas_draw_def send_file_def)
qed

text \<open>
  C1, as amended. For a request that is not for \<open>txt\<close>, whose upload has been saved,
  extracted and translated and whose text \<open>add_text_block\<close> has taken, when \<open>doc.build\<close>
  raises. With a target language without a line break: when the placeholder page can be
  drawn, the response is the placeholder PDF; when it cannot be drawn and no file is at
  the path of the PDF, the handler falls back to the text file, and the response is a
  text attachment with the translated text when that file can be written, and the 500
  answer \<open>Error creating output file: \<close> with the message of \<open>send_file\<close>'s exception
  when it cannot. With a line break in the target language the response is a 500 answer.
\<close>

theorem pdf_fallback_chain:
  assumes "before_output e w req = Some (lang, t, w2)"
      and "request_form req ''format'' \<noteq> Some ''txt''"
      and "add_text_block e (TranslatedPDF ''translated_output.pdf'') t = (None, pdf1)"
      and "build_fails e (story pdf1) = Some err"
  shows "(\<not> has_newline lang \<longrightarrow> canvas_fails e = None \<longrightarrow>
            fst (translate e w req)
              = Inr (Attachment (PdfFile (Drawn fallback_page)) (''translated_'' @ lang @ ''.pdf'')))
       \<and> (\<not> has_newline lang \<longrightarrow> canvas_fails e \<noteq> None \<longrightarrow>
          files w2 ''translated_output.pdf'' = None \<longrightarrow>
            (create_text_file e w2 t ''translated_output.txt'' = (True, w3) \<longrightarrow>
               fst (translate e w req)
                 = Inr (Attachment (TextFile t) (''translated_'' @ lang @ ''.txt'')))
          \<and> (create_text_file e w2 t ''translated_output.txt'' = (False, w3) \<longrightarrow>
               fst (translate e w req)
                 = Inr (Body (''Error creating output file: ''
                               @ message e NoFileToSend ''translated_output.pdf'') 500)))
       \<and> (has_newline lang \<longrightarrow> (\<exists>b. fst (translate e w req) = Inr (Body b 500)))"
proof -
  have tt: "translate_try e w req = pdf_output e w2 t lang"
    using translate_try_output [OF assms(1)] assms(2) by simp
  have written: "create_text_file e w2 t ''translated_output.txt'' = (True, w3) \<Longrightarrow>
      files w3 ''translated_output.txt'' = Some (TextFile t)"
    by (drule create_text_file_True) simp
  show ?thesis
  proof (intro conjI impI)
    assume n: "\<not> has_newline lang" and c: "canvas_fails e = None"
    from pdf_attempt_drawn [OF assms(3,4) c n, of w2] tt
    show "fst (translate e w req)
            = Inr (Attachment (PdfFile (Drawn fallback_page)) (''translated_'' @ lang @ ''.pdf''))"
      by (simp add: translate_def pdf_output_def)
  next
    assume n: "\<not> has_newline lang"
      and c: "canvas_fails e \<noteq> None" "files w2 ''translated_output.pdf'' = None"
      and t: "create_text_file e w2 t ''translated_output.txt'' = (True, w3)"
    from n have "\<not> has_newline (''translated_'' @ lang @ ''.txt'')"
      unfolding has_newline_name .
    from send_file_sent [OF written [OF t] this, of e]
      pdf_attempt_absent [OF assms(3,4) c, of lang] tt t
    show "fst (translate e w req)
            = Inr (Attachment (TextFile t) (''translated_'' @ lang @ ''.txt''))"
      by (simp add: translate_def pdf_output_def)
  next
    assume c: "canvas_fails e \<noteq> None" "files w2 ''translated_output.pdf'' = None"
      and f: "create_text_file e w2 t ''translated_output.txt'' = (False, w3)"
    from pdf_attempt_absent [OF assms(3,4) c, of lang] tt f
    show "fst (translate e w req)
            = Inr (Body (''Error creating output file: ''
                          @ message e NoFileToSend ''translated_output.pdf'') 500)"
      by (simp add: translate_def pdf_output_def)
  next
    assume "has_newline lang"
    from newline_language_500 [OF assms(1) this]
    show "\<exists>b. fst (translate e w req) = Inr (Body b 500)"
      by auto
  qed
qed

theorem pdf_fallback_chain_witness:
  "before_output layout_error_env empty_world pdf_request
     = Some (''Spanish'', ''Hola'' @ [LF] @ ''mundo'', translated_world)
   \<and> \<not> has_newline ''Spanish''
   \<and> build_fails layout_error_env [Paragraph ''Hola'', Paragraph ''mundo'']
       = Some (EnvError ''LayoutError'')
   \<and> canvas_fails layout_error_env = None
   \<and> fst (translate layout_error_env empty_world pdf_request)
       = Inr (Attachment (PdfFile (Drawn fallback_page)) ''translated_Spanish.pdf'')
   \<and> before_output pdf_error_env empty_world pdf_request
       = Some (''Spanish'', ''Hola'' @ [LF] @ ''mundo'', translated_world)
   \<and> build_fails pdf_error_env [Paragraph ''Hola'', Paragraph ''mundo'']
       = Some (EnvError ''LayoutError'')
   \<and> canvas_fails pdf_error_env = Some (EnvError ''cannot save canvas'')
   \<and> files translated_world ''translated_output.pdf'' = None
   \<and> fst (create_text_file pdf_error_env translated_world (''Hola'' @ [LF] @ ''mundo'')
            ''translated_output.txt'')
   \<and> fst (translate pdf_error_env empty_world pdf_request)
       = Inr (Attachment (TextFile (''Hola'' @ [LF] @ ''mundo'')) ''translated_Spanish.txt'')"
proof -
  let ?t = "''Hola'' @ [LF] @ ''mundo''"
  let ?pdf1 = "\<lparr>filename = ''translated_output.pdf'',
                story = [Paragraph ''Hola'', Paragraph ''mundo'']\<rparr>"
  have f: "request_form pdf_request ''format'' \<noteq> Some ''txt''"
    by (simp add: pdf_request_def)
  have a1: "add_text_block layout_error_env (TranslatedPDF ''translated_output.pdf'') ?t
              = (None, ?pdf1)"
    and a2: "add_text_block pdf_error_env (TranslatedPDF ''translated_output.pdf'') ?t
              = (None, ?pdf1)"
    by (simp_all add: add_text_block_def TranslatedPDF_def strip_def isspace_def
          new_paragraph_def layout_error_env_def pdf_error_env_def sample_env_def)
  have b1: "build_fails layout_error_env (story ?pdf1) = Some (EnvError ''LayoutError'')"
    and b2: "build_fails pdf_error_env (story ?pdf1) = Some (EnvError ''LayoutError'')"
    by (simp_all add: layout_error_env_def pdf_error_env_def)
  have c1: "canvas_fails layout_error_env = None"
    and c2: "canvas_fails pdf_error_env = Some (EnvError ''cannot save canvas'')"
    by (simp_all add: layout_error_env_def pdf_error_env_def sample_env_def)
  have l: "\<not> has_newline ''Spanish''"
    by (simp add: has_newline_def)
  have n: "files translated_world ''translated_output.pdf'' = None"
    by (simp add: translated_world_def)
  let ?w3 = "snd (create_text_file pdf_error_env translated_world ?t ''translated_output.txt'')"
  have w: "create_text_file pdf_error_env translated_world ?t ''translated_output.txt''
             = (True, ?w3)"
    and w': "fst (create_text_file pdf_error_env translated_world ?t ''translated_output.txt'')"
    by (simp_all add: create_text_file_def write_text_def pdf_error_env_def sample_env_def)
  from pdf_fallback_chain [OF sample_before_output(4) f a1 b1] c1 l
  have 1: "fst (translate layout_error_env empty_world pdf_request)
       = Inr (Attachment (PdfFile (Drawn fallback_page)) (''translated_'' @ ''Spanish'' @ ''.pdf''))"
    by blast
  from pdf_fallback_chain [OF sample_before_output(5) f a2 b2, of ?w3] c2 n w l
  have 2: "fst (translate pdf_error_env empty_world pdf_request)
       = Inr (Attachment (TextFile ?t) (''translated_'' @ ''Spanish'' @ ''.txt''))"
    by simp
  from sample_before_output(4,5) b1 b2 c1 c2 l n w' 1 2 show ?thesis
    by simp
qed

text \<open>
  The claim as stated fails in a read-only working directory: neither PDF can be made,
  no file is at the path of the PDF, and the text file cannot be written either, so the
  answer is an error and no text file. It fails as well for a target language with a
  line break: \<open>doc.build\<close> raises, the placeholder page is drawn, and the answer is the
  error of \<open>send_file\<close>.
\<close>

theorem pdf_fallback_chain_counterexample:
  "before_output read_only_env empty_world pdf_request
     = Some (''Spanish'', ''Hola'' @ [LF] @ ''mundo'', translated_world)
   \<and> request_form pdf_request ''format'' = None
   \<and> add_text_block read_only_env (TranslatedPDF ''translated_output.pdf'')
         (''Hola'' @ [LF] @ ''mundo'')
       = (None, \<lparr>filename = ''translated_output.pdf'',
                 story = [Paragraph ''Hola'', Paragraph ''mundo'']\<rparr>)
   \<and> build_fails read_only_env [Paragraph ''Hola'', Paragraph ''mundo'']
       = Some (EnvError ''[Errno 30] Read-only file system'')
   \<and> canvas_fails read_only_env = Some (EnvError ''[Errno 30] Read-only file system'')
   \<and> fst (translate read_only_env empty_world pdf_request)
       = Inr (Body (''Error creating output file: ''
                     @ message read_only_env NoFileToSend ''translated_output.pdf'') 500)
   \<and> before_output layout_error_env empty_world pdf_newline_request
       = Some (''Old'' @ [LF] @ ''English'', ''Hola'' @ [LF] @ ''mundo'', newline_world)
   \<and> request_form pdf_newline_request ''format'' = None
   \<and> build_fails layout_error_env [Paragraph ''Hola'', Paragraph ''mundo'']
       = Some (EnvError ''LayoutError'')
   \<and> canvas_fails layout_error_env = None
   \<and> fst (translate layout_error_env empty_world pdf_newline_request)
       = Inr (Body ''Error: Header values must not contain newline characters.'' 500)"
  by (simp add: run_defs sample_defs)

text \<open>
  With a PDF of an earlier request still at the fixed path, a failure of both
  \<open>doc.build\<close> and the placeholder page goes unnoticed: \<open>save\<close> returns, \<open>send_file\<close>
  finds the old file, and the response is the translation of the earlier request.
\<close>

lemma stale_pdf_is_sent:
  "map_option (fst \<circ> snd) (before_output pdf_error_env stale_world pdf_request)
     = Some (''Hola'' @ [LF] @ ''mundo'')
   \<and> fst (translate pdf_error_env stale_world pdf_request)
       = Inr (Attachment (PdfFile (Built [Paragraph ''Guten Tag''])) ''translated_Spanish.pdf'')"
  by (simp add: run_defs sample_defs)

end
